theory Spec2Isabelle
  imports Main
begin

section \<open>JavaScript strings and arrays\<close>

text \<open>
  A JavaScript string is modelled as a \<^typ>\<open>string\<close>: a list of code units, one
  \<^typ>\<open>char\<close> per unit (the units below 256).  \<open>length\<close> therefore counts what
  the source's \<open>.length\<close> counts.  Arrays are lists.  An index that JavaScript reports as
  \<open>-1\<close> is an \<^typ>\<open>int\<close>, a value that may be \<open>undefined\<close> is an option.
\<close>

abbreviation nl :: string where
  "nl \<equiv> [CHR 0x0A]"

abbreviation dq :: string where
  "dq \<equiv> [CHR 0x22]"

abbreviation sq :: string where
  "sq \<equiv> [CHR 0x27]"

definition startsWith :: "string \<Rightarrow> string \<Rightarrow> bool" where
  "startsWith s p = (take (length p) s = p)"

definition endsWith :: "string \<Rightarrow> string \<Rightarrow> bool" where
  "endsWith s p = (length p \<le> length s \<and> drop (length s - length p) s = p)"

fun indexOf :: "'a list \<Rightarrow> 'a \<Rightarrow> int" where
  "indexOf [] y = - 1"
| "indexOf (x # xs) y =
     (if x = y then 0 else (let i = indexOf xs y in if i < 0 then - 1 else i + 1))"

fun lastIndexOf :: "'a list \<Rightarrow> 'a \<Rightarrow> int" where
  "lastIndexOf [] y = - 1"
| "lastIndexOf (x # xs) y =
     (let i = lastIndexOf xs y in if 0 \<le> i then i + 1 else if x = y then 0 else - 1)"

text \<open>\<open>s.substring(0, e)\<close>: a negative end is clamped to 0, a large one to the length.\<close>

definition substring0 :: "string \<Rightarrow> int \<Rightarrow> string" where
  "substring0 s e = take (nat e) s"

text \<open>\<open>xs[i]\<close>: \<open>undefined\<close> outside the array.\<close>

definition at_index :: "'a list \<Rightarrow> int \<Rightarrow> 'a option" where
  "at_index xs i = (if 0 \<le> i \<and> nat i < length xs then Some (xs ! nat i) else None)"

text \<open>\<open>s.split(c)\<close> for a one-character separator; never the empty array.\<close>

fun split_chr :: "char \<Rightarrow> string \<Rightarrow> string list" where
  "split_chr c [] = [[]]"
| "split_chr c (x # xs) =
     (if x = c then [] # split_chr c xs
      else (case split_chr c xs of [] \<Rightarrow> [[x]] | w # ws \<Rightarrow> (x # w) # ws))"

text \<open>\<open>xs.pop()\<close> read as a value: the last element, \<open>undefined\<close> on the empty array.\<close>

definition pop :: "'a list \<Rightarrow> 'a option" where
  "pop xs = (if xs = [] then None else Some (last xs))"

text \<open>\<open>v || d\<close> on a possibly undefined string: \<open>undefined\<close> and \<open>""\<close> are falsy.\<close>

definition or_else :: "string option \<Rightarrow> string \<Rightarrow> string" where
  "or_else v d = (case v of None \<Rightarrow> d | Some s \<Rightarrow> if s = [] then d else s)"

text \<open>\<open>xs.join(sep)\<close>.\<close>

fun join :: "string \<Rightarrow> string list \<Rightarrow> string" where
  "join sep [] = []"
| "join sep [x] = x"
| "join sep (x # y # ys) = x @ sep @ join sep (y # ys)"

text \<open>\<open>s.includes(p)\<close> on strings: \<open>p\<close> occurs as a substring.\<close>

fun includes_str :: "string \<Rightarrow> string \<Rightarrow> bool" where
  "includes_str [] p = (p = [])"
| "includes_str (x # xs) p = (startsWith (x # xs) p \<or> includes_str xs p)"

text \<open>\<open>s.replace(p, r)\<close> with a string pattern: the first occurrence only.\<close>

fun replace_first :: "string \<Rightarrow> string \<Rightarrow> string \<Rightarrow> string" where
  "replace_first [] p r = (if p = [] then r else [])"
| "replace_first (x # xs) p r =
     (if startsWith (x # xs) p then r @ drop (length p) (x # xs)
      else x # replace_first xs p r)"

text \<open>\<open>s.replace(/"/g, '')\<close>.\<close>

definition strip_quotes :: "string \<Rightarrow> string" where
  "strip_quotes s = filter (\<lambda>c. c \<noteq> CHR 0x22) s"

text \<open>
  White space as \<open>trim\<close> and the pattern \<open>\\s\<close> see it, among the code units below 256:
  tab, line feed, vertical tab, form feed, carriage return, space, no-break space.
\<close>

definition is_space :: "char \<Rightarrow> bool" where
  "is_space c = (c = CHR 0x09 \<or> c = CHR 0x0A \<or> c = CHR 0x0B \<or> c = CHR 0x0C
     \<or> c = CHR 0x0D \<or> c = CHR 0x20 \<or> c = CHR 0xA0)"

definition trim :: "string \<Rightarrow> string" where
  "trim s = rev (dropWhile is_space (rev (dropWhile is_space s)))"

text \<open>\<open>s.split(/\\s+/)\<close>: cut at every maximal run of white space.\<close>

function split_ws :: "string \<Rightarrow> string list" where
  "split_ws [] = [[]]"
| "split_ws (x # xs) =
     (if is_space x then [] # split_ws (dropWhile is_space xs)
      else (case split_ws xs of [] \<Rightarrow> [[x]] | w # ws \<Rightarrow> (x # w) # ws))"
  by pat_completeness auto
termination
  by (relation "measure length") (auto simp: length_dropWhile_le less_Suc_eq_le)

text \<open>\<open>n.toString()\<close> for a non-negative integer.\<close>

definition digit :: "nat \<Rightarrow> char" where
  "digit d = char_of (48 + d)"

function toString :: "nat \<Rightarrow> string" where
  "toString n = (if n < 10 then [digit n] else toString (n div 10) @ [digit (n mod 10)])"
  by pat_completeness auto
termination
  by (relation "measure id") auto

declare toString.simps [simp del]

text \<open>\<open>s.padStart(n)\<close>: spaces in front up to length \<open>n\<close>.\<close>

definition padStart :: "string \<Rightarrow> nat \<Rightarrow> string" where
  "padStart s n = replicate (n - length s) CHR 0x20 @ s"

text \<open>
  \<open>xs.sort()\<close> on strings: ascending by code units, a proper prefix first.  The order is
  total on strings, so the result does not depend on the sorting algorithm.
\<close>

fun str_le :: "string \<Rightarrow> string \<Rightarrow> bool" where
  "str_le [] ys = True"
| "str_le (x # xs) [] = False"
| "str_le (x # xs) (y # ys) =
     ((of_char x :: nat) < of_char y \<or> (x = y \<and> str_le xs ys))"

fun insert_sorted :: "string \<Rightarrow> string list \<Rightarrow> string list" where
  "insert_sorted s [] = [s]"
| "insert_sorted s (t # ts) = (if str_le s t then s # t # ts else t # insert_sorted s ts)"

definition sort_strings :: "string list \<Rightarrow> string list" where
  "sort_strings xs = foldr insert_sorted xs []"


section \<open>The storage: \<open>MemStorage\<close>\<close>

text \<open>
  A \<open>FileSystemItem\<close>.  The fields \<open>id\<close>, \<open>createdAt\<close> and \<open>updatedAt\<close> (a random
  identifier and two clock readings) are written by the storage and read by no command;
  they are left out.
\<close>

datatype item_kind = File | Directory

record FileSystemItem =
  item_path :: string
  item_name :: string
  item_type :: item_kind
  item_content :: "string option"
  item_permissions :: string
  item_size :: string

text \<open>
  \<open>fileSystem\<close> is a JavaScript \<open>Map\<close> keyed by path: it iterates in insertion order, and
  \<open>set\<close> on a key that is present keeps the key's position.  An association list
  models it, read at the first entry of a key, as \<open>map_of\<close> does; \<open>delete\<close> leaves no
  entry of the key.
\<close>

type_synonym fileSystem = "(string \<times> FileSystemItem) list"

fun map_set :: "string \<Rightarrow> FileSystemItem \<Rightarrow> fileSystem \<Rightarrow> fileSystem" where
  "map_set k v [] = [(k, v)]"
| "map_set k v ((k', v') # rest) =
     (if k' = k then (k, v) # rest else (k', v') # map_set k v rest)"

fun map_delete :: "string \<Rightarrow> fileSystem \<Rightarrow> fileSystem" where
  "map_delete k [] = []"
| "map_delete k ((k', v') # rest) =
     (if k' = k then map_delete k rest else (k', v') # map_delete k rest)"

definition getFileSystemItem :: "fileSystem \<Rightarrow> string \<Rightarrow> FileSystemItem option" where
  "getFileSystemItem fs p = map_of fs p"

definition fileSystemItemExists :: "fileSystem \<Rightarrow> string \<Rightarrow> bool" where
  "fileSystemItemExists fs p = (map_of fs p \<noteq> None)"

text \<open>The directory part of a path: \<open>p.substring(0, p.lastIndexOf('/')) || '/'\<close>.\<close>

definition itemDir :: "string \<Rightarrow> string" where
  "itemDir p = (let d = substring0 p (lastIndexOf p CHR ''/'') in if d = [] then ''/'' else d)"

definition getDirectoryContents :: "fileSystem \<Rightarrow> string \<Rightarrow> FileSystemItem list" where
  "getDirectoryContents fs p =
     (let normalizedPath = (if endsWith p ''/'' \<and> p \<noteq> ''/'' then butlast p else p)
      in filter (\<lambda>item. itemDir (item_path item) = normalizedPath
                        \<and> item_path item \<noteq> normalizedPath) (map snd fs))"

definition createFileSystemItem :: "fileSystem \<Rightarrow> FileSystemItem \<Rightarrow> fileSystem" where
  "createFileSystemItem fs item = map_set (item_path item) item fs"

definition deleteFileSystemItem :: "fileSystem \<Rightarrow> string \<Rightarrow> bool \<times> fileSystem" where
  "deleteFileSystemItem fs p = (map_of fs p \<noteq> None, map_delete p fs)"

text \<open>\<open>updateFileSystemItem(path, { permissions })\<close>, the only update the commands make.\<close>

definition updateFileSystemItem_permissions :: "fileSystem \<Rightarrow> string \<Rightarrow> string \<Rightarrow> fileSystem" where
  "updateFileSystemItem_permissions fs p perms =
     (case map_of fs p of None \<Rightarrow> fs
      | Some item \<Rightarrow> map_set p (item\<lparr>item_permissions := perms\<rparr>) fs)"

definition mkItem :: "string \<Rightarrow> string \<Rightarrow> item_kind \<Rightarrow> string option \<Rightarrow> string \<Rightarrow> string
    \<Rightarrow> FileSystemItem" where
  "mkItem p n t c perms sz =
     \<lparr>item_path = p, item_name = n, item_type = t, item_content = c,
      item_permissions = perms, item_size = sz\<rparr>"

text \<open>\<open>initializeFileSystem\<close>: five directories, then three files, in this order.\<close>

definition initializeFileSystem :: fileSystem where
  "initializeFileSystem = map (\<lambda>item. (item_path item, item))
     [mkItem ''/'' ''/'' Directory None ''drwxr-xr-x'' ''4096'',
      mkItem ''/home'' ''home'' Directory None ''drwxr-xr-x'' ''4096'',
      mkItem ''/home/user'' ''user'' Directory None ''drwxr-xr-x'' ''4096'',
      mkItem ''/home/user/Documents'' ''Documents'' Directory None ''drwxr-xr-x'' ''4096'',
      mkItem ''/home/user/Projects'' ''Projects'' Directory None ''drwxr-xr-x'' ''4096'',
      mkItem ''/home/user/.bashrc'' ''.bashrc'' File (Some ''# .bashrc'') ''-rw-r--r--'' ''3526'',
      mkItem ''/home/user/.profile'' ''.profile'' File (Some ''# .profile'') ''-rw-r--r--'' ''807'',
      mkItem ''/home/user/.bash_logout'' ''.bash_logout'' File (Some ''# logout'')
        ''-rw-r--r--'' ''220'']"


section \<open>The terminal processor\<close>

subsection \<open>Path resolution\<close>

text \<open>\<open>resolvePath\<close>; its first argument is \<open>this.currentDirectory\<close>.\<close>

definition resolvePath :: "string \<Rightarrow> string \<Rightarrow> string" where
  "resolvePath cwd p =
     (if startsWith p ''/'' then p
      else if p = ''~'' then ''/home/user''
      else if startsWith p ''~/'' then ''/home/user'' @ drop 1 p
      else if cwd = ''/'' then ''/'' @ p
      else cwd @ ''/'' @ p)"

text \<open>
  The resolution rules as the specification words them, by the shape of the raw
  argument: a leading slash, the lone tilde, a leading tilde-slash, anything else.
\<close>

definition resolve_rules :: "string \<Rightarrow> string \<Rightarrow> string" where
  "resolve_rules cwd raw =
     (let relative = (if cwd = ''/'' then CHR ''/'' # raw else cwd @ CHR ''/'' # raw)
      in case raw of
           [] \<Rightarrow> relative
         | c # r \<Rightarrow>
             if c = CHR ''/'' then raw
             else if c = CHR ''~'' then
               (case r of
                  [] \<Rightarrow> ''/home/user''
                | d # r' \<Rightarrow> if d = CHR ''/'' then ''/home/user'' @ r else relative)
             else relative)"


subsection \<open>Results and errors\<close>

text \<open>
  A \<open>CommandResult\<close>.  The optional \<open>error\<close> is an option: a result written without
  the field, or with \<open>error: undefined\<close>, has \<open>None\<close>.
\<close>

record CommandResult =
  "output" :: string
  error :: "string option"
  currentDirectory :: string
  success :: bool

definition ok :: "string \<Rightarrow> string \<Rightarrow> CommandResult" where
  "ok out cwd = \<lparr>output = out, error = None, currentDirectory = cwd, success = True\<rparr>"

definition failed :: "string \<Rightarrow> string \<Rightarrow> string \<Rightarrow> CommandResult" where
  "failed out err cwd = \<lparr>output = out, error = Some err, currentDirectory = cwd, success = False\<rparr>"

text \<open>
  The one exception a handler can raise: a method called on \<open>undefined\<close>.  The string is
  the message of the engine (V8's wording).
\<close>

datatype js_error = TypeError string

fun message :: "js_error \<Rightarrow> string" where
  "message (TypeError m) = m"

text \<open>An error inside a template literal: its name, a colon, its message.\<close>

fun error_toString :: "js_error \<Rightarrow> string" where
  "error_toString (TypeError m) = ''TypeError: '' @ m"

definition undefined_read :: "string \<Rightarrow> js_error" where
  "undefined_read method =
     TypeError (''Cannot read properties of undefined (reading '' @ sq @ method @ sq @ '')'')"

text \<open>A possibly undefined value inside a template literal.\<close>

definition template :: "string option \<Rightarrow> string" where
  "template v = (case v of None \<Rightarrow> ''undefined'' | Some s \<Rightarrow> s)"

text \<open>\<open>arg.split('/').pop() || arg\<close>: the name stored with a created item.\<close>

definition baseName :: "string \<Rightarrow> string" where
  "baseName arg = or_else (pop (split_chr CHR ''/'' arg)) arg"

subsection \<open>ls\<close>

definition longLine :: "FileSystemItem \<Rightarrow> string" where
  "longLine item =
     (let typeChar = (if item_type item = Directory then ''d'' else ''-'');
          permissions = drop 1 (item_permissions item);
          size = padStart (item_size item) 8;
          date = ''Jan 15 14:30''
      in typeChar @ permissions @ '' 1 user user '' @ size @ '' '' @ date @ '' ''
           @ item_name item @ nl)"

definition listDirectory :: "fileSystem \<Rightarrow> string \<Rightarrow> string list \<Rightarrow> CommandResult" where
  "listDirectory fs cwd args =
     (let showAll = (''-a'' \<in> set args \<or> ''-la'' \<in> set args \<or> ''-al'' \<in> set args);
          longFormat = (''-l'' \<in> set args \<or> ''-la'' \<in> set args \<or> ''-al'' \<in> set args);
          targetPath = or_else (find (\<lambda>arg. \<not> startsWith arg ''-'') args) cwd;
          fullPath = resolvePath cwd targetPath
      in if \<not> fileSystemItemExists fs fullPath then
           failed (''ls: cannot access '' @ sq @ targetPath @ sq @ '': No such file or directory'')
             ''No such file or directory'' cwd
         else
           let contents = getDirectoryContents fs fullPath
           in if longFormat then
                let header = ''total '' @ toString (max (length contents * 4) 12) @ nl;
                    dots = (if showAll then
                              ''drwxr-xr-x 3 user user 4096 Jan 15 14:30 .'' @ nl
                              @ (if fullPath \<noteq> ''/'' then
                                   ''drwxr-xr-x 3 root root 4096 Jan 15 14:20 ..'' @ nl
                                 else [])
                            else []);
                    entries = concat (map (\<lambda>item.
                                if \<not> showAll \<and> startsWith (item_name item) ''.'' then []
                                else longLine item) contents)
                in ok (trim (header @ dots @ entries)) cwd
              else
                let fileNames = sort_strings (map item_name
                      (filter (\<lambda>item. showAll \<or> \<not> startsWith (item_name item) ''.'') contents))
                in ok (join ''  '' fileNames) cwd)"

subsection \<open>cd\<close>

text \<open>\<open>changeDirectory\<close> returns the result and the new \<open>this.currentDirectory\<close>.\<close>

definition changeDirectory :: "fileSystem \<Rightarrow> string \<Rightarrow> string \<Rightarrow> CommandResult \<times> string" where
  "changeDirectory fs cwd p =
     (let fullPath = resolvePath cwd p
      in if \<not> fileSystemItemExists fs fullPath then
           (failed (''cd: no such file or directory: '' @ p) ''No such file or directory'' cwd, cwd)
         else
           (case getFileSystemItem fs fullPath of
              Some item \<Rightarrow>
                if item_type item \<noteq> Directory then
                  (failed (''cd: not a directory: '' @ p) ''Not a directory'' cwd, cwd)
                else (ok [] fullPath, fullPath)
            | None \<Rightarrow> (failed (''cd: not a directory: '' @ p) ''Not a directory'' cwd, cwd)))"

subsection \<open>mkdir\<close>

text \<open>
  The body of the loop of \<open>makeDirectory\<close>, on the storage and the \<open>results\<close> array.
  \<open>parentPath\<close> is computed by the expression the storage uses for \<open>itemDir\<close>.
\<close>

definition makeDirectory_step :: "string \<Rightarrow> string \<Rightarrow> fileSystem \<times> string list
    \<Rightarrow> fileSystem \<times> string list" where
  "makeDirectory_step cwd arg st =
     (let fs = fst st; results = snd st; fullPath = resolvePath cwd arg
      in if fileSystemItemExists fs fullPath then
           (fs, results @ [''mkdir: cannot create directory '' @ sq @ arg @ sq @ '': File exists''])
         else
           let parentPath = itemDir fullPath
           in if \<not> fileSystemItemExists fs parentPath \<and> parentPath \<noteq> ''/'' then
                (fs, results @ [''mkdir: cannot create directory '' @ sq @ arg
                                @ sq @ '': No such file or directory''])
              else
                (createFileSystemItem fs
                   (mkItem fullPath (baseName arg) Directory None ''drwxr-xr-x'' ''4096''),
                 results))"

fun makeDirectory_loop :: "string \<Rightarrow> string list \<Rightarrow> fileSystem \<times> string list
    \<Rightarrow> fileSystem \<times> string list" where
  "makeDirectory_loop cwd [] st = st"
| "makeDirectory_loop cwd (arg # args) st =
     makeDirectory_loop cwd args (makeDirectory_step cwd arg st)"

text \<open>The result of a loop over several paths: \<open>results\<close> joined, its first entry the error.\<close>

definition summary :: "string list \<Rightarrow> string \<Rightarrow> CommandResult" where
  "summary results cwd =
     \<lparr>output = join nl results,
      error = (if length results > 0 then Some (hd results) else None),
      currentDirectory = cwd,
      success = (length results = 0)\<rparr>"

definition makeDirectory :: "fileSystem \<Rightarrow> string \<Rightarrow> string list \<Rightarrow> CommandResult \<times> fileSystem" where
  "makeDirectory fs cwd args =
     (if length args = 0 then (failed ''mkdir: missing operand'' ''Missing operand'' cwd, fs)
      else let st = makeDirectory_loop cwd args (fs, [])
           in (summary (snd st) cwd, fst st))"

subsection \<open>touch\<close>

definition createFile_step :: "string \<Rightarrow> string \<Rightarrow> fileSystem \<Rightarrow> fileSystem" where
  "createFile_step cwd arg fs =
     (let fullPath = resolvePath cwd arg
      in if fileSystemItemExists fs fullPath then fs
         else createFileSystemItem fs
                (mkItem fullPath (baseName arg) File (Some []) ''-rw-r--r--'' ''0''))"

fun createFile_loop :: "string \<Rightarrow> string list \<Rightarrow> fileSystem \<Rightarrow> fileSystem" where
  "createFile_loop cwd [] fs = fs"
| "createFile_loop cwd (arg # args) fs = createFile_loop cwd args (createFile_step cwd arg fs)"

definition createFile :: "fileSystem \<Rightarrow> string \<Rightarrow> string list \<Rightarrow> CommandResult \<times> fileSystem" where
  "createFile fs cwd args =
     (if length args = 0 then
        (failed ''touch: missing file operand'' ''Missing file operand'' cwd, fs)
      else (ok [] cwd, createFile_loop cwd args fs))"

subsection \<open>cat\<close>

text \<open>The argument is \<open>args[0]\<close>, undefined when there is none; \<open>!path\<close> also rejects \<open>""\<close>.\<close>

definition readFile :: "fileSystem \<Rightarrow> string \<Rightarrow> string option \<Rightarrow> CommandResult" where
  "readFile fs cwd arg =
     (case arg of
        None \<Rightarrow> failed ''cat: missing file operand'' ''Missing file operand'' cwd
      | Some p \<Rightarrow>
          if p = [] then failed ''cat: missing file operand'' ''Missing file operand'' cwd
          else
            (case getFileSystemItem fs (resolvePath cwd p) of
               None \<Rightarrow> failed (''cat: '' @ p @ '': No such file or directory'')
                         ''No such file or directory'' cwd
             | Some item \<Rightarrow>
                 if item_type item = Directory then
                   failed (''cat: '' @ p @ '': Is a directory'') ''Is a directory'' cwd
                 else ok (or_else (item_content item) []) cwd))"

subsection \<open>echo\<close>

text \<open>
  Inside the redirection branch \<open>redirectIndex + 1\<close> is an index of \<open>args\<close>: the guard
  says so.
\<close>

definition echo :: "fileSystem \<Rightarrow> string \<Rightarrow> string list \<Rightarrow> CommandResult \<times> fileSystem" where
  "echo fs cwd args =
     (if length args = 0 then (ok [] cwd, fs)
      else
        let redirectIndex = indexOf args ''>''
        in if redirectIndex \<noteq> - 1 \<and> redirectIndex < int (length args) - 1 then
             let content = strip_quotes (join '' '' (take (nat redirectIndex) args));
                 filename = args ! nat (redirectIndex + 1);
                 fullPath = resolvePath cwd filename
             in (ok [] cwd,
                 createFileSystemItem fs
                   (mkItem fullPath (baseName filename) File (Some content) ''-rw-r--r--''
                      (toString (length content))))
           else (ok (strip_quotes (join '' '' args)) cwd, fs))"

subsection \<open>rm\<close>

definition removeFile_step :: "string \<Rightarrow> string \<Rightarrow> fileSystem \<times> string list
    \<Rightarrow> fileSystem \<times> string list" where
  "removeFile_step cwd arg st =
     (let fs = fst st; results = snd st; fullPath = resolvePath cwd arg
      in if \<not> fileSystemItemExists fs fullPath then
           (fs, results @ [''rm: cannot remove '' @ sq @ arg @ sq @ '': No such file or directory''])
         else
           let del = deleteFileSystemItem fs fullPath
           in if \<not> fst del then
                (snd del, results @ [''rm: cannot remove '' @ sq @ arg @ sq @ '': Operation failed''])
              else (snd del, results))"

fun removeFile_loop :: "string \<Rightarrow> string list \<Rightarrow> fileSystem \<times> string list
    \<Rightarrow> fileSystem \<times> string list" where
  "removeFile_loop cwd [] st = st"
| "removeFile_loop cwd (arg # args) st = removeFile_loop cwd args (removeFile_step cwd arg st)"

definition removeFile :: "fileSystem \<Rightarrow> string \<Rightarrow> string list \<Rightarrow> CommandResult \<times> fileSystem" where
  "removeFile fs cwd args =
     (if length args = 0 then (failed ''rm: missing operand'' ''Missing operand'' cwd, fs)
      else let st = removeFile_loop cwd args (fs, [])
           in (summary (snd st) cwd, fst st))"

subsection \<open>cp and mv\<close>

text \<open>With two arguments or more, \<open>args[0]\<close> and \<open>args[1]\<close> are defined.\<close>

definition copyFile :: "fileSystem \<Rightarrow> string \<Rightarrow> string list \<Rightarrow> CommandResult \<times> fileSystem" where
  "copyFile fs cwd args =
     (if length args < 2 then
        (failed ''cp: missing destination file operand after source'' ''Missing destination'' cwd,
         fs)
      else
        let source = resolvePath cwd (args ! 0); dest = resolvePath cwd (args ! 1)
        in case getFileSystemItem fs source of
             None \<Rightarrow>
               (failed (''cp: cannot stat '' @ sq @ args ! 0 @ sq @ '': No such file or directory'')
                  ''File not found'' cwd, fs)
           | Some sourceFile \<Rightarrow>
               (ok [] cwd,
                createFileSystemItem fs
                  (mkItem dest (baseName (args ! 1)) (item_type sourceFile)
                     (item_content sourceFile) (item_permissions sourceFile)
                     (item_size sourceFile))))"

definition moveFile :: "fileSystem \<Rightarrow> string \<Rightarrow> string list \<Rightarrow> CommandResult \<times> fileSystem" where
  "moveFile fs cwd args =
     (if length args < 2 then
        (failed ''mv: missing destination file operand after source'' ''Missing destination'' cwd,
         fs)
      else
        let source = resolvePath cwd (args ! 0); dest = resolvePath cwd (args ! 1)
        in case getFileSystemItem fs source of
             None \<Rightarrow>
               (failed (''mv: cannot stat '' @ sq @ args ! 0 @ sq @ '': No such file or directory'')
                  ''File not found'' cwd, fs)
           | Some sourceFile \<Rightarrow>
               let fs1 = createFileSystemItem fs
                     (mkItem dest (baseName (args ! 1)) (item_type sourceFile)
                        (item_content sourceFile) (item_permissions sourceFile)
                        (item_size sourceFile))
               in (ok [] cwd, snd (deleteFileSystemItem fs1 source)))"

subsection \<open>chmod\<close>

definition changePermissions :: "fileSystem \<Rightarrow> string \<Rightarrow> string list
    \<Rightarrow> CommandResult \<times> fileSystem" where
  "changePermissions fs cwd args =
     (if length args < 2 then (failed ''chmod: missing operand'' ''Missing operand'' cwd, fs)
      else
        let permissions = args ! 0; filename = args ! 1; filepath = resolvePath cwd filename
        in case getFileSystemItem fs filepath of
             None \<Rightarrow>
               (failed (''chmod: cannot access '' @ sq @ filename
                          @ sq @ '': No such file or directory'') ''File not found'' cwd, fs)
           | Some file \<Rightarrow>
               (ok [] cwd, updateFileSystemItem_permissions fs filepath (''-'' @ permissions)))"

subsection \<open>find\<close>

text \<open>
  \<open>searchName\<close> is undefined when \<open>-name\<close> is the last argument; the filter then calls
  \<open>replace\<close> on it for the first item it looks at, and raises.  With no item to look at
  nothing is raised.
\<close>

definition findFiles :: "fileSystem \<Rightarrow> string \<Rightarrow> string list \<Rightarrow> js_error + CommandResult" where
  "findFiles fs cwd args =
     (let searchPath = or_else (at_index args 0) cwd;
          searchName = (if ''-name'' \<in> set args then at_index args (indexOf args ''-name'' + 1)
                        else Some ''*'');
          contents = getDirectoryContents fs searchPath
      in case searchName of
           None \<Rightarrow>
             if contents = [] then Inr (ok [] cwd) else Inl (undefined_read ''replace'')
         | Some pat \<Rightarrow>
             let results = filter (\<lambda>item. pat = ''*''
                     \<or> includes_str (item_name item) (replace_first pat ''*'' [])) contents
             in Inr (ok (join nl (map item_path results)) cwd))"

subsection \<open>grep\<close>

definition grepCommand :: "fileSystem \<Rightarrow> string \<Rightarrow> string list \<Rightarrow> CommandResult" where
  "grepCommand fs cwd args =
     (if length args < 2 then failed ''grep: missing pattern or file'' ''Missing arguments'' cwd
      else
        let pat = args ! 0; filename = args ! 1
        in case getFileSystemItem fs (resolvePath cwd filename) of
             None \<Rightarrow> failed (''grep: '' @ filename @ '': No such file or directory'')
                       ''File not found'' cwd
           | Some file \<Rightarrow>
               if item_type file = Directory then
                 failed (''grep: '' @ filename @ '': Is a directory'') ''Is a directory'' cwd
               else
                 let content = or_else (item_content file) [];
                     lines = split_chr CHR 0x0A content;
                     matches = filter (\<lambda>line. includes_str line pat) lines
                 in ok (join nl matches) cwd)"


subsection \<open>The host\<close>

text \<open>
  What the handlers read from outside the program: the clock, and the text of the four
  monitoring commands, which the source formats from readings of the operating system,
  \<open>Math.random\<close> and floating-point arithmetic.  \<open>date_iso h n\<close> and
  \<open>date_locale_time h n\<close> are \<open>toISOString()\<close> and \<open>toLocaleTimeString()\<close> of the
  \<open>n\<close>-th \<open>new Date()\<close> a handler evaluates.
\<close>

record host =
  date_iso :: "nat \<Rightarrow> string"
  date_locale_time :: "nat \<Rightarrow> string"
  top_text :: string
  ps_text :: string
  df_text :: string
  free_text :: string

subsection \<open>help\<close>

definition helpText :: string where
  "helpText =
     ''Available Commands:'' @ nl @ nl @ ''File System:'' @ nl @
     ''ls          - List directory contents'' @ nl @
     ''pwd         - Print working directory  '' @ nl @ ''cd          - Change directory'' @
     nl @ ''mkdir       - Create directory'' @ nl @ ''touch       - Create file'' @ nl @
     ''cat         - Display file contents'' @ nl @ ''echo        - Display text'' @ nl @
     ''rm          - Remove files'' @ nl @ ''cp          - Copy files/directories'' @ nl @
     ''mv          - Move/rename files'' @ nl @ ''chmod       - Change file permissions'' @
     nl @ ''find        - Find files and directories'' @ nl @
     ''grep        - Search text in files'' @ nl @ nl @ ''Network & Downloads:'' @ nl @
     ''curl        - Transfer data from/to servers'' @ nl @
     ''wget        - Download files from web'' @ nl @
     ''ssh         - Secure shell remote access'' @ nl @
     ''scp         - Secure copy over SSH'' @ nl @ ''rsync       - Sync files/directories'' @
     nl @ nl @ ''Development:'' @ nl @ ''git         - Git version control'' @ nl @
     ''python      - Python interpreter'' @ nl @ ''node        - Node.js runtime'' @ nl @
     ''java        - Java runtime'' @ nl @ ''javac       - Java compiler'' @ nl @
     ''gcc/g++     - C/C++ compiler'' @ nl @ ''make        - Build automation'' @ nl @
     ''npm         - Node package manager'' @ nl @ ''pip         - Python package manager'' @
     nl @ nl @ ''System Monitoring:'' @ nl @ ''top/htop    - System resource monitor'' @ nl @
     ''ps          - Show running processes'' @ nl @ ''df          - Show disk usage'' @ nl @
     ''free        - Show memory usage'' @ nl @ ''uname       - System information'' @ nl @
     ''whoami      - Current user'' @ nl @ nl @ ''Text Editors:'' @ nl @
     ''nano/vim    - Text editors'' @ nl @ nl @ ''Archive Tools:'' @ nl @
     ''tar         - Archive files'' @ nl @ ''zip/unzip   - Compress/extract files'' @ nl @
     nl @ ''Utilities:'' @ nl @ ''clear       - Clear terminal'' @ nl @
     ''help        - Show this help'' @ nl @ nl @ ''Command options:'' @ nl @
     ''ls -l       - Long format listing'' @ nl @ ''ls -a       - Show hidden files'' @ nl @
     ''ls -la      - Long format with hidden files'' @ nl @ ''echo '' @ dq @ ''text'' @ dq @
     '' > file - Redirect output to file''"

definition showHelp :: "string \<Rightarrow> CommandResult" where
  "showHelp cwd = ok helpText cwd"

subsection \<open>curl and wget\<close>

definition executeCurl :: "host \<Rightarrow> string \<Rightarrow> string list \<Rightarrow> CommandResult" where
  "executeCurl h cwd args =
     (if length args = 0 then failed ''curl: missing URL'' ''Missing URL'' cwd
      else
        let url = args ! 0
        in if \<not> startsWith url ''http'' then
             failed (''curl: (1) Protocol '' @ dq @ hd (split_chr CHR '':'' url) @ dq @
                      '' not supported or disabled in libcurl'')
               ''Invalid URL protocol'' cwd
           else
             ok (''HTTP/1.1 200 OK'' @ nl @ ''Content-Type: application/json'' @ nl @
                  ''Content-Length: 85'' @ nl @ nl @ ''{'' @ nl @ ''  '' @ dq @ ''message'' @
                  dq @ '': '' @ dq @ ''Success'' @ dq @ '','' @ nl @ ''  '' @ dq @ ''url'' @
                  dq @ '': '' @ dq @ url @ dq @ '','' @ nl @ ''  '' @ dq @ ''method'' @ dq @
                  '': '' @ dq @ ''GET'' @ dq @ '','' @ nl @ ''  '' @ dq @ ''timestamp'' @ dq @
                  '': '' @ dq @ date_iso h 0 @ dq @ nl @ ''}'') cwd)"

definition executeWget :: "host \<Rightarrow> fileSystem \<Rightarrow> string \<Rightarrow> string list
    \<Rightarrow> CommandResult \<times> fileSystem" where
  "executeWget h fs cwd args =
     (if length args = 0 then (failed ''wget: missing URL'' ''Missing URL'' cwd, fs)
      else
        let url = args ! 0;
            filename = or_else (pop (split_chr CHR ''/'' url)) ''index.html'';
            out = ''--'' @ hd (split_chr CHR ''T'' (date_iso h 0)) @ '' '' @
                   date_locale_time h 1 @ ''--  '' @ url @ nl @ ''Resolving '' @
                   template (at_index (split_chr CHR ''/'' url) 2) @ ''... 192.168.1.1'' @ nl @
                   ''Connecting to '' @ template (at_index (split_chr CHR ''/'' url) 2) @
                   ''|192.168.1.1|:80... connected.'' @ nl @
                   ''HTTP request sent, awaiting response... 200 OK'' @ nl @
                   ''Length: 2048 (2.0K) [text/html]'' @ nl @ ''Saving to: '' @ sq @ filename @
                   sq @ nl @ nl @ filename @
                   ''          100%[===================>]   2.00K  --.-KB/s    in 0s      '' @
                   nl @ nl @ hd (split_chr CHR ''T'' (date_iso h 2)) @ '' '' @
                   date_locale_time h 3 @ '' (10.2 MB/s) - '' @ sq @ filename @ sq @
                   '' saved [2048/2048]''
        in (ok out cwd,
            createFileSystemItem fs
              (mkItem (resolvePath cwd filename) filename File
                 (Some (''<!DOCTYPE html>'' @ nl @ ''<html>'' @ nl @
                         ''<head><title>Downloaded content</title></head>'' @ nl @
                         ''<body><h1>Sample content from '' @ url @ ''</h1></body>'' @ nl @
                         ''</html>''))
                 ''-rw-r--r--'' ''2048'')))"

subsection \<open>git\<close>

definition gitUsage :: string where
  "gitUsage =
     ''usage: git [--version] [--help] [-C <path>] [-c <name>=<value>]'' @ nl @
     ''           [--exec-path[=<path>]] [--html-path] [--man-path] [--info-path]'' @ nl @
     ''           [-p | --paginate | -P | --no-pager] [--no-replace-objects] [--bare]'' @ nl @
     ''           [--git-dir=<path>] [--work-tree=<path>] [--namespace=<name>]'' @ nl @
     ''           <command> [<args>]''"

definition cloneFile :: "string \<Rightarrow> string \<Rightarrow> string \<Rightarrow> FileSystemItem" where
  "cloneFile repoPath fileName fileContent =
     mkItem (repoPath @ ''/'' @ fileName) fileName File (Some fileContent) ''-rw-r--r--''
       (toString (length fileContent))"

definition executeGit :: "fileSystem \<Rightarrow> string \<Rightarrow> string list \<Rightarrow> CommandResult \<times> fileSystem" where
  "executeGit fs cwd args =
     (if length args = 0 then (ok gitUsage cwd, fs)
      else
        let subcommand = args ! 0; subargs = drop 1 args
        in if subcommand = ''clone'' then
             (if length subargs = 0 then
                (failed ''fatal: You must specify a repository to clone.''
                   ''Missing repository URL'' cwd, fs)
              else
                let repoUrl = subargs ! 0;
                    repoName = or_else (map_option (\<lambda>s. replace_first s ''.git'' [])
                                 (pop (split_chr CHR ''/'' repoUrl))) ''repository'';
                    cloneOutput = ''Cloning into '' @ sq @ repoName @ sq @ ''...'' @ nl @
                                   ''remote: Enumerating objects: 156, done.'' @ nl @
                                   ''remote: Counting objects: 100% (156/156), done.'' @ nl @
                                   ''remote: Compressing objects: 100% (98/98), done.'' @ nl @
                                   ''remote: Total 156 (delta 45), reused 132 (delta 34), pack-reused 0'' @
                                   nl @
                                   ''Receiving objects: 100% (156/156), 45.67 KiB | 1.52 MiB/s, done.'' @
                                   nl @ ''Resolving deltas: 100% (45/45), done.'';
                    repoPath = resolvePath cwd repoName;
                    fs1 = createFileSystemItem fs
                            (mkItem repoPath repoName Directory None ''drwxr-xr-x'' ''4096'');
                    fs2 = createFileSystemItem fs1 (cloneFile repoPath ''README.md''
                            (''# '' @ repoName @ nl @ nl @ ''Cloned from '' @ repoUrl));
                    fs3 = createFileSystemItem fs2 (cloneFile repoPath ''.gitignore''
                            (''node_modules/'' @ nl @ ''*.log'' @ nl @ ''.env''));
                    fs4 = createFileSystemItem fs3 (cloneFile repoPath ''package.json''
                            (''{'' @ nl @ ''  '' @ dq @ ''name'' @ dq @ '': '' @ dq @
                              repoName @ dq @ '','' @ nl @ ''  '' @ dq @ ''version'' @ dq @
                              '': '' @ dq @ ''1.0.0'' @ dq @ '','' @ nl @ ''  '' @ dq @
                              ''description'' @ dq @ '': '' @ dq @ ''Cloned repository'' @ dq @
                              nl @ ''}''))
                in (ok cloneOutput cwd, fs4))
           else if subcommand = ''status'' then
             (ok (''On branch main'' @ nl @ ''Your branch is up to date with '' @ sq @
                   ''origin/main'' @ sq @ ''.'' @ nl @ nl @
                   ''nothing to commit, working tree clean'') cwd, fs)
           else if subcommand = ''init'' then
             (ok (''Initialized empty Git repository in '' @ cwd @ ''/.git/'') cwd, fs)
           else if subcommand = ''add'' then (ok [] cwd, fs)
           else if subcommand = ''commit'' then
             (ok (''[main 1a2b3c4] Sample commit'' @ nl @ '' 1 file changed, 1 insertion(+)'') cwd, fs)
           else if subcommand = ''push'' then (ok ''Everything up-to-date'' cwd, fs)
           else if subcommand = ''pull'' then (ok ''Already up to date.'' cwd, fs)
           else
             (failed (''git: '' @ sq @ subcommand @ sq @ '' is not a git command. See '' @
                       sq @ ''git --help'' @ sq @ ''.'')
                ''Unknown git command'' cwd, fs))"

subsection \<open>Interpreters and compilers\<close>

definition executePython :: "fileSystem \<Rightarrow> string \<Rightarrow> string list \<Rightarrow> CommandResult" where
  "executePython fs cwd args =
     (if length args = 0 then
        ok (''Python 3.11.0 (main, Oct 24 2022, 18:26:48) [GCC 9.4.0] on linux'' @ nl @
             ''Type '' @ dq @ ''help'' @ dq @ '', '' @ dq @ ''copyright'' @ dq @ '', '' @ dq @
             ''credits'' @ dq @ '' or '' @ dq @ ''license'' @ dq @ '' for more information.'' @
             nl @ ''>>> exit()'') cwd
      else
        let filename = args ! 0
        in case getFileSystemItem fs (resolvePath cwd filename) of
             None \<Rightarrow>
               failed (''python: can'' @ sq @ ''t open file '' @ sq @ filename @ sq @
                        '': [Errno 2] No such file or directory'')
                 ''File not found'' cwd
           | Some file \<Rightarrow>
               if item_type file \<noteq> File \<or> \<not> endsWith filename ''.py'' then
                 failed (''python: can'' @ sq @ ''t open file '' @ sq @ filename @ sq @
                          '': [Errno 21] Is a directory'')
                   ''Invalid file'' cwd
               else
                 ok (''Running Python script: '' @ filename @ nl @ ''Hello from Python!'' @
                      nl @ ''Script execution completed successfully.'') cwd)"

definition executeNode :: "fileSystem \<Rightarrow> string \<Rightarrow> string list \<Rightarrow> CommandResult" where
  "executeNode fs cwd args =
     (if length args = 0 then
        ok (''Welcome to Node.js v18.17.0.'' @ nl @ ''Type '' @ dq @ ''.help'' @ dq @
             '' for more information.'' @ nl @ ''> .exit'') cwd
      else
        let filename = args ! 0
        in case getFileSystemItem fs (resolvePath cwd filename) of
             None \<Rightarrow> failed (''node: can'' @ sq @ ''t open file '' @ sq @
                                         filename @ sq) ''File not found'' cwd
           | Some file \<Rightarrow>
               ok (''Running Node.js script: '' @ filename @ nl @ ''Hello from Node.js!'' @
                    nl @ ''Script execution completed successfully.'') cwd)"

definition executeJava :: "string \<Rightarrow> string list \<Rightarrow> CommandResult" where
  "executeJava cwd args =
     (if length args = 0 then
        ok (''Usage: java [options] <mainclass> [args...]'' @ nl @
             ''           (to execute a class)'' @ nl @
             ''   or  java [options] -jar <jarfile> [args...]'' @ nl @
             ''           (to execute a jar file)'') cwd
      else
        let className = args ! 0
        in ok (''Running Java class: '' @ className @ nl @ ''Hello from Java!'' @ nl @
                ''Program execution completed successfully.'') cwd)"

definition executeJavac :: "fileSystem \<Rightarrow> string \<Rightarrow> string list \<Rightarrow> CommandResult \<times> fileSystem" where
  "executeJavac fs cwd args =
     (if length args = 0 then (ok ''Usage: javac <options> <source files>'' cwd, fs)
      else
        let filename = args ! 0
        in if getFileSystemItem fs (resolvePath cwd filename) = None
              \<or> \<not> endsWith filename ''.java'' then
             (failed (''javac: file not found: '' @ filename) ''File not found'' cwd, fs)
           else
             let classFile = replace_first filename ''.java'' ''.class''
             in (ok (''Compiled '' @ filename @ '' successfully.'') cwd,
                 createFileSystemItem fs
                   (mkItem (resolvePath cwd classFile) classFile File
                      (Some ''Compiled Java bytecode (binary)'') ''-rw-r--r--'' ''1024'')))"

text \<open>
  \<open>outputFile\<close> is undefined when \<open>-o\<close> is the last argument; \<open>resolvePath\<close> then calls
  \<open>startsWith\<close> on it and raises, before anything is written.
\<close>

definition executeGcc :: "fileSystem \<Rightarrow> string \<Rightarrow> string \<Rightarrow> string list
    \<Rightarrow> (js_error + CommandResult) \<times> fileSystem" where
  "executeGcc fs cwd compiler args =
     (if length args = 0 then
        (Inr (failed (compiler @ '': fatal error: no input files'' @ nl @
                       ''compilation terminated.'')
                ''No input files'' cwd), fs)
      else
        let sourceFile = args ! 0;
            outputFileOpt = (if ''-o'' \<in> set args then at_index args (indexOf args ''-o'' + 1)
                             else Some ''a.out'')
        in case getFileSystemItem fs (resolvePath cwd sourceFile) of
             None \<Rightarrow>
               (Inr (failed (compiler @ '': error: '' @ sourceFile @
                              '': No such file or directory'')
                       ''File not found'' cwd), fs)
           | Some file \<Rightarrow>
               (case outputFileOpt of
                  None \<Rightarrow> (Inl (undefined_read ''startsWith''), fs)
                | Some outputFile \<Rightarrow>
                    (Inr (ok (''Compiled '' @ sourceFile @ '' to '' @ outputFile @
                               '' successfully.'') cwd),
                     createFileSystemItem fs
                       (mkItem (resolvePath cwd outputFile) outputFile File
                          (Some ''Compiled executable (binary)'') ''-rwxr-xr-x'' ''8192''))))"

definition executeMake :: "string \<Rightarrow> string list \<Rightarrow> CommandResult" where
  "executeMake cwd args =
     ok (''make: Entering directory '' @ sq @ cwd @ sq @ nl @ ''gcc -o main main.c'' @ nl @
          ''make: Leaving directory '' @ sq @ cwd @ sq) cwd"

subsection \<open>Package managers\<close>

definition executeNpm :: "string \<Rightarrow> string list \<Rightarrow> CommandResult" where
  "executeNpm cwd args =
     (if length args = 0 then
        ok (''npm <command>'' @ nl @ nl @ ''Usage:'' @ nl @ nl @
             ''npm install        install all the dependencies'' @ nl @
             ''npm install <foo>  add the <foo> dependency'' @ nl @
             ''npm test           run this package'' @ sq @ ''s tests'' @ nl @
             ''npm run <foo>      run the script named <foo>'' @ nl @
             ''npm <command> -h   quick help on <command>'') cwd
      else
        let command = args ! 0
        in if command = ''install'' then
             ok (''npm WARN saveError ENOENT: no such file or directory, open '' @ sq @
                  ''package.json'' @ sq @ nl @
                  ''npm notice created a lockfile as package-lock.json. You should commit this file.'' @
                  nl @ ''npm WARN enoent ENOENT: no such file or directory, open '' @ sq @
                  ''package.json'' @ sq @ nl @ ''npm WARN terminal No description'' @ nl @
                  ''npm WARN terminal No repository field.'' @ nl @
                  ''npm WARN terminal No README data'' @ nl @
                  ''npm WARN terminal No license field.'' @ nl @ nl @
                  ''audited 1 package in 0.5s'' @ nl @ ''found 0 vulnerabilities'') cwd
           else if command = ''init'' then
             ok (''This utility will walk you through creating a package.json file.'' @ nl @
                  ''package.json created successfully!'') cwd
           else if command = ''start'' then
             failed ''npm ERR! missing script: start'' ''Missing script'' cwd
           else failed (''Unknown command: '' @ command) ''Unknown command'' cwd)"

definition executePip :: "string \<Rightarrow> string list \<Rightarrow> CommandResult" where
  "executePip cwd args =
     (if length args = 0 then
        ok (nl @ ''Usage:   '' @ nl @ ''  pip <command> [options]'' @ nl @ nl @
             ''Commands:'' @ nl @ ''  install                     Install packages.'' @ nl @
             ''  download                    Download packages.'' @ nl @
             ''  uninstall                   Uninstall packages.'' @ nl @
             ''  freeze                      Output installed packages in requirements format.'' @
             nl @ ''  list                        List installed packages.'' @ nl @
             ''  show                        Show information about installed packages.'') cwd
      else
        let command = args ! 0
        in if command = ''install'' then
             let package_name = or_else (at_index args 1) ''package''
             in ok (''Collecting '' @ package_name @ nl @ ''  Downloading '' @ package_name @
                     ''-1.0.0-py3-none-any.whl (50 kB)'' @ nl @
                     ''Installing collected packages: '' @ package_name @ nl @
                     ''Successfully installed '' @ package_name @ ''-1.0.0'') cwd
           else if command = ''list'' then
             ok (''Package    Version'' @ nl @ ''---------- -------'' @ nl @
                  ''pip        23.0.1'' @ nl @ ''setuptools 65.5.0'' @ nl @
                  ''wheel      0.38.4'') cwd
           else failed (''Unknown command: '' @ command) ''Unknown command'' cwd)"

subsection \<open>Monitoring\<close>

definition showSystemResources :: "host \<Rightarrow> string \<Rightarrow> CommandResult" where
  "showSystemResources h cwd = ok (top_text h) cwd"

definition showProcesses :: "host \<Rightarrow> string \<Rightarrow> CommandResult" where
  "showProcesses h cwd = ok (ps_text h) cwd"

definition showDiskUsage :: "host \<Rightarrow> string \<Rightarrow> CommandResult" where
  "showDiskUsage h cwd = ok (df_text h) cwd"

definition showMemoryUsage :: "host \<Rightarrow> string \<Rightarrow> CommandResult" where
  "showMemoryUsage h cwd = ok (free_text h) cwd"

definition showSystemInfo :: "string \<Rightarrow> string list \<Rightarrow> CommandResult" where
  "showSystemInfo cwd args =
     (if ''-a'' \<in> set args then
        ok ''Linux webtermux 5.15.0-generic #72-Ubuntu SMP Fri Jan 20 10:24:01 UTC 2023 x86_64 x86_64 x86_64 GNU/Linux'' cwd
      else ok ''Linux'' cwd)"

subsection \<open>Editors and archives\<close>

definition openEditor :: "string \<Rightarrow> string \<Rightarrow> string list \<Rightarrow> CommandResult" where
  "openEditor cwd editor args =
     (let filename = or_else (at_index args 0) ''newfile.txt''
      in ok (''Opening '' @ filename @ '' with '' @ editor @ ''...'' @ nl @ editor @
              '': Editor simulation - file opened successfully.'' @ nl @
              ''Use Ctrl+X to exit (nano) or :q to quit (vim).'') cwd)"

text \<open>
  \<open>args[args.indexOf('-f') + 1]\<close>: without \<open>-f\<close> the index is \<open>-1 + 1\<close>, the first
  argument.
\<close>

definition executeTar :: "string \<Rightarrow> string list \<Rightarrow> CommandResult" where
  "executeTar cwd args =
     (if length args = 0 then
        failed (''tar: You must specify one of the '' @ sq @ ''-Acdtrux'' @ sq @ '', '' @ sq @
                 ''--delete'' @ sq @ '' or '' @ sq @ ''--test-label'' @ sq @ '' options'')
          ''Missing options'' cwd
      else
        let opt = args ! 0;
            archiveName = or_else (at_index args (indexOf args ''-f'' + 1)) ''archive.tar''
        in if CHR ''c'' \<in> set opt then ok (''Created archive: '' @ archiveName) cwd
           else if CHR ''x'' \<in> set opt then ok (''Extracted archive: '' @ archiveName) cwd
           else ok ''tar: operation completed'' cwd)"

definition executeZip :: "string \<Rightarrow> string \<Rightarrow> string list \<Rightarrow> CommandResult" where
  "executeZip cwd command args =
     (let zipName = or_else (at_index args 0) ''archive.zip''
      in if command = ''zip'' then
           ok (''  adding: files (deflated 50%)'' @ nl @ ''Archive '' @ zipName @
                '' created successfully.'') cwd
         else
           ok (''Archive:  '' @ zipName @ nl @ ''  inflating: file1.txt'' @ nl @
                ''  inflating: file2.txt'' @ nl @ ''Extraction completed.'') cwd)"

subsection \<open>Remote tools\<close>

definition executeSSH :: "string \<Rightarrow> string list \<Rightarrow> CommandResult" where
  "executeSSH cwd args =
     (if length args = 0 then
        ok (''usage: ssh [-46AaCfGgKkMNnqsTtVvXxYy] [-B bind_interface]'' @ nl @
             ''           [-b bind_address] [-c cipher_spec] [-D [bind_address:]port]'') cwd
      else
        let hostName = args ! 0
        in failed (''ssh: connect to host '' @ hostName @ '' port 22: Connection refused'') ''Connection refused'' cwd)"

definition executeSCP :: "string \<Rightarrow> string list \<Rightarrow> CommandResult" where
  "executeSCP cwd args =
     (if length args < 2 then
        ok ''usage: scp [-346BCpqrTv] [-c cipher] [-F ssh_config] [-i identity_file]'' cwd
      else
        let source = args ! 0; dest = args ! 1
        in failed (''scp: connect to host '' @ hd (split_chr CHR '':'' dest) @
                    '' port 22: Connection refused'') ''Connection refused'' cwd)"

definition executeRsync :: "string \<Rightarrow> string list \<Rightarrow> CommandResult" where
  "executeRsync cwd args =
     (if length args < 2 then
        failed ''rsync: no destination specified'' ''Missing destination'' cwd
      else
        let source = args ! 0; dest = args ! 1
        in ok (''sending incremental file list'' @ nl @ source @ nl @ nl @
                ''sent 1,234 bytes  received 56 bytes  258.00 bytes/sec'' @ nl @
                ''total size is 1,234  speedup is 0.96'') cwd)"

subsection \<open>The dispatcher\<close>

text \<open>
  The state a command runs in: the storage, shared by every processor, and the two
  private fields of the \<open>TerminalProcessor\<close>.
\<close>

record terminal =
  storage :: fileSystem
  this_currentDirectory :: string
  this_commandHistory :: "string list"

text \<open>
  The \<open>switch\<close> of \<open>executeCommand\<close>: the handler's result or the exception it raised,
  the storage and the current directory it leaves.
\<close>

definition dispatch :: "host \<Rightarrow> fileSystem \<Rightarrow> string \<Rightarrow> string \<Rightarrow> string list
    \<Rightarrow> (js_error + CommandResult) \<times> fileSystem \<times> string" where
  "dispatch h fs cwd cmd args =
     (if cmd = ''pwd'' then (Inr (ok cwd cwd), fs, cwd)
      else if cmd = ''ls'' then (Inr (listDirectory fs cwd args), fs, cwd)
      else if cmd = ''cd'' then
        (let r = changeDirectory fs cwd (or_else (at_index args 0) ''/home/user'')
         in (Inr (fst r), fs, snd r))
      else if cmd = ''mkdir'' then
        (let r = makeDirectory fs cwd args in (Inr (fst r), snd r, cwd))
      else if cmd = ''touch'' then
        (let r = createFile fs cwd args in (Inr (fst r), snd r, cwd))
      else if cmd = ''cat'' then (Inr (readFile fs cwd (at_index args 0)), fs, cwd)
      else if cmd = ''echo'' then
        (let r = echo fs cwd args in (Inr (fst r), snd r, cwd))
      else if cmd = ''rm'' then
        (let r = removeFile fs cwd args in (Inr (fst r), snd r, cwd))
      else if cmd = ''clear'' then (Inr (ok ([CHR 0x1B] @ ''[2J'' @ [CHR 0x1B] @ ''[H'') cwd), fs, cwd)
      else if cmd = ''help'' then (Inr (showHelp cwd), fs, cwd)
      else if cmd = ''curl'' then (Inr (executeCurl h cwd args), fs, cwd)
      else if cmd = ''wget'' then
        (let r = executeWget h fs cwd args in (Inr (fst r), snd r, cwd))
      else if cmd = ''git'' then
        (let r = executeGit fs cwd args in (Inr (fst r), snd r, cwd))
      else if cmd = ''python'' \<or> cmd = ''python3'' then
        (Inr (executePython fs cwd args), fs, cwd)
      else if cmd = ''node'' \<or> cmd = ''nodejs'' then (Inr (executeNode fs cwd args), fs, cwd)
      else if cmd = ''java'' then (Inr (executeJava cwd args), fs, cwd)
      else if cmd = ''javac'' then
        (let r = executeJavac fs cwd args in (Inr (fst r), snd r, cwd))
      else if cmd = ''gcc'' \<or> cmd = ''g++'' then
        (let r = executeGcc fs cwd cmd args in (fst r, snd r, cwd))
      else if cmd = ''make'' then (Inr (executeMake cwd args), fs, cwd)
      else if cmd = ''npm'' then (Inr (executeNpm cwd args), fs, cwd)
      else if cmd = ''pip'' \<or> cmd = ''pip3'' then (Inr (executePip cwd args), fs, cwd)
      else if cmd = ''top'' \<or> cmd = ''htop'' then (Inr (showSystemResources h cwd), fs, cwd)
      else if cmd = ''ps'' then (Inr (showProcesses h cwd), fs, cwd)
      else if cmd = ''df'' then (Inr (showDiskUsage h cwd), fs, cwd)
      else if cmd = ''free'' then (Inr (showMemoryUsage h cwd), fs, cwd)
      else if cmd = ''uname'' then (Inr (showSystemInfo cwd args), fs, cwd)
      else if cmd = ''whoami'' then (Inr (ok ''user'' cwd), fs, cwd)
      else if cmd = ''nano'' \<or> cmd = ''vim'' \<or> cmd = ''vi'' then
        (Inr (openEditor cwd cmd args), fs, cwd)
      else if cmd = ''find'' then (findFiles fs cwd args, fs, cwd)
      else if cmd = ''grep'' then (Inr (grepCommand fs cwd args), fs, cwd)
      else if cmd = ''tar'' then (Inr (executeTar cwd args), fs, cwd)
      else if cmd = ''zip'' \<or> cmd = ''unzip'' then (Inr (executeZip cwd cmd args), fs, cwd)
      else if cmd = ''cp'' then
        (let r = copyFile fs cwd args in (Inr (fst r), snd r, cwd))
      else if cmd = ''mv'' then
        (let r = moveFile fs cwd args in (Inr (fst r), snd r, cwd))
      else if cmd = ''chmod'' then
        (let r = changePermissions fs cwd args in (Inr (fst r), snd r, cwd))
      else if cmd = ''ssh'' then (Inr (executeSSH cwd args), fs, cwd)
      else if cmd = ''scp'' then (Inr (executeSCP cwd args), fs, cwd)
      else if cmd = ''rsync'' then (Inr (executeRsync cwd args), fs, cwd)
      else
        (Inr (failed (''Command not found: '' @ cmd) (cmd @ '': command not found'') cwd), fs, cwd))"

text \<open>
  \<open>executeCommand\<close>.  The \<open>catch\<close> clause reads \<open>this.currentDirectory\<close> after the
  handler has run.  \<open>parts[0]\<close> exists: splitting a non-empty trimmed string gives at
  least one part.
\<close>

definition executeCommand :: "host \<Rightarrow> string \<Rightarrow> terminal \<Rightarrow> CommandResult \<times> terminal" where
  "executeCommand h command t =
     (let trimmedCommand = trim command
      in if trimmedCommand = [] then (ok [] (this_currentDirectory t), t)
         else
           let history = this_commandHistory t @ [trimmedCommand];
               parts = split_ws trimmedCommand;
               cmd = hd parts;
               args = drop 1 parts;
               r = dispatch h (storage t) (this_currentDirectory t) cmd args;
               fs = fst (snd r);
               cwd = snd (snd r);
               t1 = \<lparr>storage = fs, this_currentDirectory = cwd, this_commandHistory = history\<rparr>
           in case fst r of
                Inr res \<Rightarrow> (res, t1)
              | Inl e \<Rightarrow>
                  (failed (''Error executing command: '' @ error_toString e) (message e) cwd,
                   t1))"

text \<open>A new processor on a freshly initialised storage, and a run of several commands.\<close>

definition bootstrap :: terminal where
  "bootstrap =
     \<lparr>storage = initializeFileSystem, this_currentDirectory = ''/home/user'',
      this_commandHistory = []\<rparr>"

fun run :: "host \<Rightarrow> string list \<Rightarrow> terminal \<Rightarrow> terminal" where
  "run h [] t = t"
| "run h (command # commands) t = run h commands (snd (executeCommand h command t))"


subsection \<open>Predicates used in the properties\<close>

text \<open>
  A result is well shaped for a current directory: it carries an error exactly when it
  is not a success, and it reports that directory.
\<close>

definition well_shaped :: "CommandResult \<Rightarrow> string \<Rightarrow> bool" where
  "well_shaped res cwd = ((error res \<noteq> None) = (\<not> success res) \<and> currentDirectory res = cwd)"

definition shaped_outcome :: "(js_error + CommandResult) \<times> fileSystem \<times> string \<Rightarrow> bool" where
  "shaped_outcome r = (case fst r of Inr res \<Rightarrow> well_shaped res (snd (snd r)) | Inl e \<Rightarrow> True)"

text \<open>The number a string of decimal digits denotes, to read a \<open>size\<close> back.\<close>

definition decimal_value :: "string \<Rightarrow> nat" where
  "decimal_value s = foldl (\<lambda>acc c. 10 * acc + (of_char c - 48)) 0 s"

text \<open>
  The byte length of a text in UTF-8, for the code units the model has: one byte for a
  unit below 128, two bytes for a unit from 128 to 255.
\<close>

definition utf8_length :: "string \<Rightarrow> nat" where
  "utf8_length s = sum_list (map (\<lambda>c. if (of_char c :: nat) < 128 then 1 else 2) s)"

text \<open>
  \<open>mv\<close> as the specification words it: \<open>cp\<close>, and when that succeeds, the deletion of
  the resolved source path.
\<close>

definition cp_then_delete :: "fileSystem \<Rightarrow> string \<Rightarrow> string list
    \<Rightarrow> CommandResult \<times> fileSystem" where
  "cp_then_delete fs cwd args =
     (let r = copyFile fs cwd args
      in if success (fst r)
         then (fst r, snd (deleteFileSystemItem (snd r) (resolvePath cwd (args ! 0))))
         else r)"

text \<open>
  The parent invariant of the storage: every node but the root has a directory node at
  the directory part of its path.
\<close>

definition parents_exist :: "fileSystem \<Rightarrow> bool" where
  "parents_exist fs =
     list_all (\<lambda>entry. fst entry = ''/''
        \<or> (case getFileSystemItem fs (itemDir (fst entry)) of
              None \<Rightarrow> False
            | Some parent \<Rightarrow> item_type parent = Directory)) fs"

text \<open>A host to evaluate concrete commands with.\<close>

definition sample_host :: host where
  "sample_host =
     \<lparr>date_iso = (\<lambda>n. ''2024-01-15T14:30:00.000Z''),
      date_locale_time = (\<lambda>n. ''2:30:00 PM''),
      top_text = ''top'', ps_text = ''ps'', df_text = ''df'', free_text = ''free''\<rparr>"


section \<open>Properties\<close>

subsection \<open>Path resolution\<close>

lemma resolvePath_resolve_rules: "resolvePath cwd raw = resolve_rules cwd raw"
  by (auto simp: resolvePath_def resolve_rules_def startsWith_def Let_def split: list.splits)

lemma resolvePath_suffix:
  "raw \<noteq> ''~'' \<Longrightarrow>
   \<exists>pre. resolvePath cwd raw = pre @ (if startsWith raw ''~/'' then drop 1 raw else raw)"
  unfolding resolvePath_resolve_rules
  by (auto simp: resolve_rules_def startsWith_def Let_def split: list.splits)

text \<open>
  C2.  \<open>resolvePath\<close> is a function of the current directory and the raw argument alone,
  and computes the five rules in their order: a raw path with a leading slash is returned
  as it is, the lone tilde is the home directory, a leading tilde-slash is replaced by the
  home directory and the slash, and any other raw path is appended to the current
  directory after one slash (none added when the current directory is the root).
  Nothing is normalised: unless the raw argument is the lone tilde, the result ends with
  the raw text itself (without its tilde in the third rule), so dot segments and doubled
  slashes are carried over as they are.  The three sample resolutions of the
  specification hold.
\<close>

theorem resolvePath_rules:
  "resolvePath cwd raw = resolve_rules cwd raw
   \<and> (raw \<noteq> ''~'' \<longrightarrow>
        (\<exists>pre. resolvePath cwd raw = pre @ (if startsWith raw ''~/'' then drop 1 raw else raw)))
   \<and> resolvePath ''/home/user'' ''..'' = ''/home/user/..''
   \<and> resolvePath ''/home/user'' ''a//./b'' = ''/home/user/a//./b''
   \<and> resolvePath ''/home/user'' ''notes.txt'' = ''/home/user/notes.txt''
   \<and> resolvePath ''/home/user'' ''/etc/hosts'' = ''/etc/hosts''
   \<and> resolvePath ''/home/user'' ''~'' = ''/home/user''"
proof -
  have suffix: "raw \<noteq> ''~'' \<longrightarrow>
      (\<exists>pre. resolvePath cwd raw = pre @ (if startsWith raw ''~/'' then drop 1 raw else raw))"
    using resolvePath_suffix by blast
  have samples: "resolvePath ''/home/user'' ''..'' = ''/home/user/..''"
    "resolvePath ''/home/user'' ''a//./b'' = ''/home/user/a//./b''"
    "resolvePath ''/home/user'' ''notes.txt'' = ''/home/user/notes.txt''"
    "resolvePath ''/home/user'' ''/etc/hosts'' = ''/etc/hosts''"
    "resolvePath ''/home/user'' ''~'' = ''/home/user''"
    by (simp_all add: resolvePath_def startsWith_def)
  from resolvePath_resolve_rules suffix samples show ?thesis by blast
qed

theorem resolvePath_rules_witness:
  "''~/a/../b'' \<noteq> ''~''
   \<and> (\<exists>pre. resolvePath ''/'' ''~/a/../b'' = pre @ ''/a/../b'')"
proof -
  have ne: "''~/a/../b'' \<noteq> ''~''"
    by simp
  have tilde: "startsWith ''~/a/../b'' ''~/''"
    by (simp add: startsWith_def)
  have "\<exists>pre. resolvePath ''/'' ''~/a/../b''
      = pre @ (if startsWith ''~/a/../b'' ''~/'' then drop 1 ''~/a/../b'' else ''~/a/../b'')"
    using resolvePath_rules [of "''/''" "''~/a/../b''"] ne by blast
  with tilde ne show ?thesis
    by simp
qed

subsection \<open>The shape of a result\<close>

lemma ok_fields [simp]: "error (ok out cwd) = None" "success (ok out cwd)" "currentDirectory (ok out cwd) = cwd" "output (ok out cwd) = out"
  by (simp_all add: ok_def)

lemma failed_fields [simp]: "error (failed out err cwd) = Some err" "\<not> success (failed out err cwd)" "currentDirectory (failed out err cwd) = cwd" "output (failed out err cwd) = out"
  by (simp_all add: failed_def)

lemma shaped_ok [simp]: "well_shaped (ok out cwd) cwd"
  by (simp add: well_shaped_def)

lemma shaped_failed [simp]: "well_shaped (failed out err cwd) cwd"
  by (simp add: well_shaped_def)

lemma shaped_summary [simp]: "well_shaped (summary results cwd) cwd"
  by (simp add: well_shaped_def summary_def)

lemma shaped_listDirectory: "well_shaped (listDirectory fs cwd args) cwd"
  by (simp add: listDirectory_def Let_def)

lemma shaped_changeDirectory:
  "well_shaped (fst (changeDirectory fs cwd p)) (snd (changeDirectory fs cwd p))"
  by (simp add: changeDirectory_def Let_def split: option.splits)

lemma shaped_makeDirectory: "well_shaped (fst (makeDirectory fs cwd args)) cwd"
  by (simp add: makeDirectory_def Let_def)

lemma shaped_createFile: "well_shaped (fst (createFile fs cwd args)) cwd"
  by (simp add: createFile_def)

lemma shaped_readFile: "well_shaped (readFile fs cwd arg) cwd"
  by (simp add: readFile_def split: option.splits)

lemma shaped_echo: "well_shaped (fst (echo fs cwd args)) cwd"
  by (simp add: echo_def Let_def)

lemma shaped_removeFile: "well_shaped (fst (removeFile fs cwd args)) cwd"
  by (simp add: removeFile_def Let_def)

lemma shaped_executeCurl: "well_shaped (executeCurl h cwd args) cwd"
  by (simp add: executeCurl_def Let_def)

lemma shaped_executeWget: "well_shaped (fst (executeWget h fs cwd args)) cwd"
  by (simp add: executeWget_def Let_def)

lemma shaped_executeGit: "well_shaped (fst (executeGit fs cwd args)) cwd"
  by (simp add: executeGit_def Let_def)

lemma shaped_executePython: "well_shaped (executePython fs cwd args) cwd"
  by (simp add: executePython_def Let_def split: option.splits)

lemma shaped_executeNode: "well_shaped (executeNode fs cwd args) cwd"
  by (simp add: executeNode_def Let_def split: option.splits)

lemma shaped_executeJava: "well_shaped (executeJava cwd args) cwd"
  by (simp add: executeJava_def Let_def)

lemma shaped_executeJavac: "well_shaped (fst (executeJavac fs cwd args)) cwd"
  by (simp add: executeJavac_def Let_def)

lemma shaped_executeMake: "well_shaped (executeMake cwd args) cwd"
  by (simp add: executeMake_def)

lemma shaped_executeNpm: "well_shaped (executeNpm cwd args) cwd"
  by (simp add: executeNpm_def Let_def)

lemma shaped_executePip: "well_shaped (executePip cwd args) cwd"
  by (simp add: executePip_def Let_def)

lemma shaped_monitoring:
  "well_shaped (showSystemResources h cwd) cwd" "well_shaped (showProcesses h cwd) cwd"
  "well_shaped (showDiskUsage h cwd) cwd" "well_shaped (showMemoryUsage h cwd) cwd"
  "well_shaped (showSystemInfo cwd args) cwd" "well_shaped (showHelp cwd) cwd"
  by (simp_all add: showSystemResources_def showProcesses_def showDiskUsage_def
      showMemoryUsage_def showSystemInfo_def showHelp_def)

lemma shaped_openEditor: "well_shaped (openEditor cwd editor args) cwd"
  by (simp add: openEditor_def Let_def)

lemma shaped_executeTar: "well_shaped (executeTar cwd args) cwd"
  by (simp add: executeTar_def Let_def)

lemma shaped_executeZip: "well_shaped (executeZip cwd command args) cwd"
  by (simp add: executeZip_def Let_def)

lemma shaped_grepCommand: "well_shaped (grepCommand fs cwd args) cwd"
  by (simp add: grepCommand_def Let_def split: option.splits)

lemma shaped_copyFile: "well_shaped (fst (copyFile fs cwd args)) cwd"
  by (simp add: copyFile_def Let_def split: option.splits)

lemma shaped_moveFile: "well_shaped (fst (moveFile fs cwd args)) cwd"
  by (simp add: moveFile_def Let_def split: option.splits)

lemma shaped_changePermissions: "well_shaped (fst (changePermissions fs cwd args)) cwd"
  by (simp add: changePermissions_def Let_def split: option.splits)

lemma shaped_remote:
  "well_shaped (executeSSH cwd args) cwd" "well_shaped (executeSCP cwd args) cwd"
  "well_shaped (executeRsync cwd args) cwd"
  by (simp_all add: executeSSH_def executeSCP_def executeRsync_def Let_def)

lemma shaped_findFiles: "findFiles fs cwd args = Inr res \<Longrightarrow> well_shaped res cwd"
  by (auto simp: findFiles_def Let_def split: option.splits if_splits)

lemma shaped_executeGcc: "fst (executeGcc fs cwd compiler args) = Inr res \<Longrightarrow> well_shaped res cwd"
  by (auto simp: executeGcc_def Let_def split: option.splits if_splits)

lemmas shaped_handlers = shaped_listDirectory shaped_changeDirectory shaped_makeDirectory
  shaped_createFile shaped_readFile shaped_echo shaped_removeFile shaped_executeCurl
  shaped_executeWget shaped_executeGit shaped_executePython shaped_executeNode
  shaped_executeJava shaped_executeJavac shaped_executeMake shaped_executeNpm shaped_executePip
  shaped_monitoring shaped_openEditor shaped_executeTar shaped_executeZip shaped_grepCommand
  shaped_copyFile shaped_moveFile shaped_changePermissions shaped_remote


lemma shaped_outcome_Inr [simp]: "shaped_outcome (Inr res, fs, cwd) = well_shaped res cwd"
  by (simp add: shaped_outcome_def)

lemma shaped_outcome_find: "shaped_outcome (findFiles fs cwd args, fs, cwd)"
  by (auto simp: shaped_outcome_def dest: shaped_findFiles split: sum.splits)

lemma shaped_outcome_gcc:
  "shaped_outcome (fst (executeGcc fs cwd compiler args), snd (executeGcc fs cwd compiler args), cwd)"
  by (auto simp: shaped_outcome_def dest: shaped_executeGcc split: sum.splits)

lemma shaped_dispatch: "shaped_outcome (dispatch h fs cwd cmd args)"
  unfolding dispatch_def Let_def
  by (simp add: shaped_handlers shaped_outcome_find shaped_outcome_gcc)

text \<open>
  C6.  For every command line, host and state, the result of \<open>executeCommand\<close> carries
  an error exactly when its success flag is false (an \<open>error\<close> written as \<open>undefined\<close>
  counts as absent), and its \<open>currentDirectory\<close> is the current directory of the
  processor after the call.  This covers the blank line, every handler, the unknown
  command and the \<open>catch\<close> clause.
\<close>

theorem result_shape:
  "(error (fst (executeCommand h command t)) \<noteq> None)
     = (\<not> success (fst (executeCommand h command t)))
   \<and> currentDirectory (fst (executeCommand h command t))
     = this_currentDirectory (snd (executeCommand h command t))"
proof (cases "trim command = []")
  case True
  then show ?thesis
    by (simp add: executeCommand_def)
next
  case False
  then show ?thesis
    using shaped_dispatch [of h "storage t" "this_currentDirectory t"
        "hd (split_ws (trim command))" "drop 1 (split_ws (trim command))"]
    by (simp add: executeCommand_def Let_def shaped_outcome_def well_shaped_def
        split: sum.splits)
qed

theorem result_shape_witness:
  "\<not> success (fst (executeCommand sample_host ''gcc .bashrc -o'' bootstrap))
   \<and> currentDirectory (fst (executeCommand sample_host ''gcc .bashrc -o'' bootstrap))
     = ''/home/user''"
proof -
  have raised: "error (fst (executeCommand sample_host ''gcc .bashrc -o'' bootstrap))
      = Some (message (undefined_read ''startsWith''))"
    by code_simp
  have stays: "this_currentDirectory (snd (executeCommand sample_host ''gcc .bashrc -o'' bootstrap))
      = ''/home/user''"
    by code_simp
  from result_shape [of sample_host "''gcc .bashrc -o''" bootstrap] raised stays
  show ?thesis
    by simp
qed

subsection \<open>cd\<close>

lemma dispatch_cd:
  "dispatch h fs cwd ''cd'' args =
     (let r = changeDirectory fs cwd (or_else (at_index args 0) ''/home/user'')
      in (Inr (fst r), fs, snd r))"
  by (simp add: dispatch_def)

text \<open>
  C3.  \<open>cd\<close> takes its first argument, or \<open>/home/user\<close> when there is none, and resolves
  it against the current directory.  The handler never raises and leaves the storage as
  it is.  If no node exists at the resolved path the result fails with the error
  \<open>No such file or directory\<close>; if the node is not a directory it fails with
  \<open>Not a directory\<close>; in both cases the current directory is unchanged.  If the node is a
  directory the result succeeds with empty output and no error, and the resolved path is
  the new current directory, which the result reports.
\<close>

theorem changeDirectory_contract:
  "(let p = (case args of [] \<Rightarrow> ''/home/user'' | a # rest \<Rightarrow> if a = [] then ''/home/user'' else a);
        fullPath = resolvePath cwd p;
        r = changeDirectory fs cwd p
    in dispatch h fs cwd ''cd'' args = (Inr (fst r), fs, snd r)
       \<and> currentDirectory (fst r) = snd r
       \<and> (case getFileSystemItem fs fullPath of
             None \<Rightarrow>
               \<not> success (fst r) \<and> error (fst r) = Some ''No such file or directory''
               \<and> snd r = cwd
           | Some item \<Rightarrow>
               if item_type item = Directory
               then success (fst r) \<and> output (fst r) = [] \<and> error (fst r) = None
                    \<and> snd r = fullPath
               else \<not> success (fst r) \<and> error (fst r) = Some ''Not a directory''
                    \<and> snd r = cwd))"
  by (cases args)
     (auto simp: dispatch_cd or_else_def at_index_def changeDirectory_def Let_def
        fileSystemItemExists_def getFileSystemItem_def split: option.splits)

theorem changeDirectory_contract_witness:
  "snd (changeDirectory initializeFileSystem ''/home/user'' ''Documents'') = ''/home/user/Documents''
   \<and> success (fst (changeDirectory initializeFileSystem ''/home/user'' ''Documents''))
   \<and> error (fst (changeDirectory initializeFileSystem ''/home/user'' ''.bashrc''))
     = Some ''Not a directory''
   \<and> snd (changeDirectory initializeFileSystem ''/home/user'' ''.bashrc'') = ''/home/user''
   \<and> error (fst (changeDirectory initializeFileSystem ''/home/user'' ''nowhere''))
     = Some ''No such file or directory''
   \<and> snd (changeDirectory initializeFileSystem ''/home/user'' ''nowhere'') = ''/home/user''"
proof -
  have folder: "getFileSystemItem initializeFileSystem (resolvePath ''/home/user'' ''Documents'')
      = Some (mkItem ''/home/user/Documents'' ''Documents'' Directory None ''drwxr-xr-x'' ''4096'')"
    by code_simp
  have plain: "getFileSystemItem initializeFileSystem (resolvePath ''/home/user'' ''.bashrc'')
      = Some (mkItem ''/home/user/.bashrc'' ''.bashrc'' File (Some ''# .bashrc'') ''-rw-r--r--''
          ''3526'')"
    by code_simp
  have none: "getFileSystemItem initializeFileSystem (resolvePath ''/home/user'' ''nowhere'') = None"
    by code_simp
  have full: "resolvePath ''/home/user'' ''Documents'' = ''/home/user/Documents''"
    by code_simp
  from changeDirectory_contract [of "[''Documents'']" "''/home/user''" initializeFileSystem sample_host]
    changeDirectory_contract [of "[''.bashrc'']" "''/home/user''" initializeFileSystem sample_host]
    changeDirectory_contract [of "[''nowhere'']" "''/home/user''" initializeFileSystem sample_host]
    folder plain none full
  show ?thesis
    by (simp add: Let_def mkItem_def)
qed

subsection \<open>Command history\<close>

lemma executeCommand_history:
  "this_commandHistory (snd (executeCommand h c t))
     = this_commandHistory t @ (if trim c = [] then [] else [trim c])"
  by (simp add: executeCommand_def Let_def split: sum.splits)

lemma run_history:
  "this_commandHistory (run h cs t)
     = this_commandHistory t @ filter (\<lambda>c. c \<noteq> []) (map trim cs)"
  by (induction cs arbitrary: t) (simp_all add: executeCommand_history)

text \<open>
  C7.  A command whose trimmed text is empty returns a successful result with empty
  output and leaves the processor, its history included, as it was.  After any run of
  commands the history is the history before, followed by the trimmed texts of the
  commands that are not blank, in the order of their invocation: nothing is removed or
  reordered, and duplicates stay.  So after \<open>N\<close> commands with non-empty trimmed text,
  run on a new processor, the history has length \<open>N\<close>.
\<close>

theorem command_history:
  "(trim command = [] \<longrightarrow>
      executeCommand h command t = (ok [] (this_currentDirectory t), t))
   \<and> this_commandHistory (run h commands t)
       = this_commandHistory t @ filter (\<lambda>c. c \<noteq> []) (map trim commands)
   \<and> ((\<forall>c \<in> set commands. trim c \<noteq> []) \<longrightarrow>
         this_commandHistory (run h commands t) = this_commandHistory t @ map trim commands
         \<and> length (this_commandHistory (run h commands bootstrap)) = length commands)"
proof -
  have blank: "trim command = [] \<longrightarrow>
      executeCommand h command t = (ok [] (this_currentDirectory t), t)"
    by (simp add: executeCommand_def)
  have keep: "(\<forall>c \<in> set commands. trim c \<noteq> []) \<Longrightarrow>
      filter (\<lambda>c. c \<noteq> []) (map trim commands) = map trim commands"
    by (induction commands) simp_all
  have start: "this_commandHistory bootstrap = []"
    by (simp add: bootstrap_def)
  from blank keep start show ?thesis
    by (simp add: run_history)
qed

theorem command_history_witness:
  "this_commandHistory (run sample_host [''  ls  '', ''   '', ''pwd'', ''ls''] bootstrap)
     = [''ls'', ''pwd'', ''ls'']
   \<and> this_commandHistory (run sample_host [''pwd'', ''nosuch x'', ''pwd''] bootstrap)
     = [''pwd'', ''nosuch x'', ''pwd'']
   \<and> executeCommand sample_host ''   '' bootstrap = (ok [] ''/home/user'', bootstrap)"
proof -
  have t1: "map trim [''  ls  '', ''   '', ''pwd'', ''ls''] = [''ls'', [], ''pwd'', ''ls'']"
    by code_simp
  have t2: "map trim [''pwd'', ''nosuch x'', ''pwd''] = [''pwd'', ''nosuch x'', ''pwd'']"
    by code_simp
  have t3: "trim ''   '' = []"
    by code_simp
  have b: "this_commandHistory bootstrap = []" "this_currentDirectory bootstrap = ''/home/user''"
    by (simp_all add: bootstrap_def)
  from command_history [of "''   ''" sample_host bootstrap "[''  ls  '', ''   '', ''pwd'', ''ls'']"]
    command_history [of "''   ''" sample_host bootstrap "[''pwd'', ''nosuch x'', ''pwd'']"]
    t1 t2 t3 b
  show ?thesis
    by simp
qed

subsection \<open>The string and array functions\<close>

lemma of_char_digit: "d < 10 \<Longrightarrow> of_char (digit d) = 48 + d"
  by (simp add: digit_def)

lemma decimal_value_toString: "decimal_value (toString n) = n"
proof (induction n rule: toString.induct)
  case (1 n)
  show ?case
  proof (cases "n < 10")
    case True
    then show ?thesis
      by (subst toString.simps) (simp add: decimal_value_def of_char_digit)
  next
    case False
    with 1 have "decimal_value (toString (n div 10)) = n div 10"
      by simp
    with False show ?thesis
      by (subst toString.simps) (simp add: decimal_value_def of_char_digit)
  qed
qed

lemma lastIndexOf_absent: "c \<notin> set p \<Longrightarrow> lastIndexOf p c = - 1"
  by (induction p) (auto simp: Let_def)

lemma lastIndexOf_last: "c \<notin> set n \<Longrightarrow> lastIndexOf (pre @ c # n) c = int (length pre)"
  by (induction pre) (auto simp: Let_def lastIndexOf_absent)

lemma itemDir_child:
  "CHR ''/'' \<notin> set n \<Longrightarrow> itemDir (pre @ CHR ''/'' # n) = (if pre = [] then ''/'' else pre)"
  by (simp add: itemDir_def substring0_def lastIndexOf_last Let_def)

lemma itemDir_flat: "CHR ''/'' \<notin> set p \<Longrightarrow> itemDir p = ''/''"
  by (simp add: itemDir_def substring0_def lastIndexOf_absent Let_def)

lemma str_le_lexord:
  "str_le xs ys
     = (xs = ys \<or> (map of_char xs, map of_char ys) \<in> lexord {(a :: nat, b). a < b})"
proof (induction xs ys rule: str_le.induct)
  case (1 ys)
  show ?case by (cases ys) auto
next
  case (2 x xs)
  show ?case by simp
next
  case (3 x xs y ys)
  then show ?case by auto
qed

lemma str_le_total: "str_le xs ys \<or> str_le ys xs"
  by (induction xs ys rule: str_le.induct) auto

lemma str_le_trans: "str_le xs ys \<Longrightarrow> str_le ys zs \<Longrightarrow> str_le xs zs"
proof (induction xs arbitrary: ys zs)
  case Nil
  then show ?case by simp
next
  case (Cons x xs)
  then obtain y ys' where ys: "ys = y # ys'"
    by (cases ys) auto
  with Cons.prems obtain z zs' where zs: "zs = z # zs'"
    by (cases zs) auto
  from Cons.prems Cons.IH [of ys' zs'] show ?case
    unfolding ys zs by auto
qed

lemma sorted_insert_sorted:
  "sorted_wrt str_le ts \<Longrightarrow> sorted_wrt str_le (insert_sorted s ts)"
proof (induction ts)
  case Nil
  then show ?case by simp
next
  case (Cons t ts)
  have members: "set (insert_sorted s ts) = insert s (set ts)"
    by (induction ts) auto
  show ?case
  proof (cases "str_le s t")
    case True
    with Cons.prems show ?thesis
      by (auto intro: str_le_trans)
  next
    case False
    with str_le_total [of s t] have "str_le t s" by blast
    with False Cons show ?thesis
      by (auto simp: members)
  qed
qed

lemma count_insert_sorted:
  "count_list (insert_sorted s ts) x = count_list (s # ts) x"
  by (induction ts) auto

lemma sort_strings_sorted: "sorted_wrt str_le (sort_strings xs)"
  unfolding sort_strings_def by (induction xs) (simp_all add: sorted_insert_sorted)

lemma sort_strings_count: "count_list (sort_strings xs) x = count_list xs x"
  unfolding sort_strings_def by (induction xs) (simp_all add: count_insert_sorted)

lemma join_concat:
  "join sep [] = [] \<and> join sep (x # xs) = x @ concat (map (\<lambda>y. sep @ y) xs)"
  by (induction xs arbitrary: x) simp_all

lemma startsWith_iff: "startsWith s p = (\<exists>r. s = p @ r)"
  unfolding startsWith_def by (metis append_eq_conv_conj append_take_drop_id)

lemma endsWith_iff: "endsWith s p = (\<exists>r. s = r @ p)"
proof
  assume "endsWith s p"
  then have "s = take (length s - length p) s @ p"
    by (metis append_take_drop_id endsWith_def)
  then show "\<exists>r. s = r @ p" ..
next
  assume "\<exists>r. s = r @ p"
  then show "endsWith s p"
    by (auto simp: endsWith_def)
qed

lemma digits_listed: "list_all (\<lambda>d. digit d \<in> set ''0123456789'') [0..<10]"
  by code_simp

lemma digit_char: "d < 10 \<Longrightarrow> digit d \<in> set ''0123456789''"
  using digits_listed unfolding list_all_iff by simp

lemma digit_zero: "d < 10 \<Longrightarrow> digit d = CHR ''0'' \<Longrightarrow> d = 0"
proof -
  assume small: "d < 10" and z: "digit d = CHR ''0''"
  from small have "(of_char (digit d) :: nat) = 48 + d"
    by (rule of_char_digit)
  with z show "d = 0" by simp
qed

lemma toString_canonical:
  "toString n \<noteq> [] \<and> set (toString n) \<subseteq> set ''0123456789''
   \<and> (hd (toString n) = CHR ''0'' \<longrightarrow> n = 0)"
proof (induction n rule: toString.induct)
  case (1 n)
  show ?case
  proof (cases "n < 10")
    case True
    then show ?thesis
      using digit_char [of n] digit_zero [of n]
      by (subst (1 2 3) toString.simps) auto
  next
    case False
    with 1 have ih: "toString (n div 10) \<noteq> []"
      "set (toString (n div 10)) \<subseteq> set ''0123456789''"
      "hd (toString (n div 10)) = CHR ''0'' \<longrightarrow> n div 10 = 0"
      by simp_all
    from False have big: "n div 10 \<noteq> 0" by simp
    have "n mod 10 < 10" by simp
    then have last: "digit (n mod 10) \<in> set ''0123456789''"
      by (rule digit_char)
    have unfold: "toString n = toString (n div 10) @ [digit (n mod 10)]"
      using False by (subst toString.simps) simp
    from ih big last show ?thesis
      unfolding unfold by auto
  qed
qed

lemma utf8_length_ascii:
  "(utf8_length s = length s) = (\<forall>c \<in> set s. (of_char c :: nat) < 128)"
proof -
  have lower: "length s \<le> utf8_length s" for s
    unfolding utf8_length_def by (induction s) auto
  show ?thesis
  proof (induction s)
    case Nil
    then show ?case by (simp add: utf8_length_def)
  next
    case (Cons c s)
    have step: "utf8_length (c # s) = (if (of_char c :: nat) < 128 then 1 else 2) + utf8_length s"
      by (simp add: utf8_length_def)
    from Cons lower [of s] show ?case
      unfolding step by auto
  qed
qed

lemma split_chr_flat: "c \<notin> set n \<Longrightarrow> split_chr c n = [n]"
  by (induction n) auto

lemma split_chr_nonempty: "split_chr c s \<noteq> []"
  by (induction s) (auto split: list.splits)

lemma last_split_chr: "c \<notin> set n \<Longrightarrow> last (split_chr c (pre @ c # n)) = n"
proof (induction pre)
  case Nil
  then show ?case by (simp add: split_chr_flat)
next
  case (Cons x pre)
  obtain w ws where parts: "split_chr c (pre @ c # n) = w # ws"
    using split_chr_nonempty [of c "pre @ c # n"] by (cases "split_chr c (pre @ c # n)") auto
  from Cons have ih: "last (w # ws) = n"
    by (simp add: parts)
  show ?case
  proof (cases "x = c")
    case True
    with ih show ?thesis by (simp add: parts)
  next
    case False
    have "ws \<noteq> []"
    proof
      assume "ws = []"
      with parts have "split_chr c (pre @ c # n) = [w]" by simp
      moreover have "length (split_chr c s) = Suc (count_list s c)" for s
        by (induction s) (auto split: list.splits)
      ultimately have "count_list (pre @ c # n) c = 0"
        by (metis length_Cons list.size(3) nat.inject)
      then show False by simp
    qed
    with False ih show ?thesis by (simp add: parts)
  qed
qed

lemma baseName_segments:
  "CHR ''/'' \<notin> set n \<Longrightarrow>
   baseName n = n
   \<and> baseName (pre @ CHR ''/'' # n) = (if n = [] then pre @ CHR ''/'' # n else n)"
  using split_chr_nonempty [of "CHR ''/''" "pre @ CHR ''/'' # n"]
  by (simp add: baseName_def pop_def or_else_def split_chr_flat last_split_chr)

subsection \<open>ls\<close>

lemma dispatch_ls: "dispatch h fs cwd ''ls'' args = (Inr (listDirectory fs cwd args), fs, cwd)"
  by (simp add: dispatch_def)

lemma concat_skip:
  "concat (map (\<lambda>item. if P item then [] else f item) xs)
     = concat (map f (filter (\<lambda>item. \<not> P item) xs))"
  by (induction xs) auto

lemma set_getDirectoryContents:
  "set (getDirectoryContents fs p) =
     {item \<in> snd ` set fs.
        itemDir (item_path item) = (if endsWith p ''/'' \<and> p \<noteq> ''/'' then butlast p else p)
        \<and> item_path item \<noteq> (if endsWith p ''/'' \<and> p \<noteq> ''/'' then butlast p else p)}"
  by (auto simp: getDirectoryContents_def Let_def)

lemma getDirectoryContents_filter:
  "getDirectoryContents fs p
     = (let parent = (if endsWith p ''/'' \<and> p \<noteq> ''/'' then butlast p else p)
        in filter (\<lambda>item. itemDir (item_path item) = parent \<and> item_path item \<noteq> parent)
             (map snd fs))"
  by (simp add: getDirectoryContents_def Let_def)

lemma listDirectory_outcome:
  "(let targetPath = (case find (\<lambda>arg. \<not> startsWith arg ''-'') args of
                        None \<Rightarrow> cwd | Some a \<Rightarrow> if a = [] then cwd else a);
        fullPath = resolvePath cwd targetPath;
        res = listDirectory fs cwd args;
        showAll = (''-a'' \<in> set args \<or> ''-la'' \<in> set args \<or> ''-al'' \<in> set args);
        longFormat = (''-l'' \<in> set args \<or> ''-la'' \<in> set args \<or> ''-al'' \<in> set args);
        contents = getDirectoryContents fs fullPath;
        shown = filter (\<lambda>item. showAll \<or> \<not> startsWith (item_name item) ''.'') contents
    in dispatch h fs cwd ''ls'' args = (Inr res, fs, cwd)
       \<and> success res = (getFileSystemItem fs fullPath \<noteq> None)
       \<and> (getFileSystemItem fs fullPath = None \<longrightarrow>
            output res = ''ls: cannot access '' @ sq @ targetPath @ sq
                           @ '': No such file or directory''
            \<and> error res = Some ''No such file or directory'')
       \<and> (getFileSystemItem fs fullPath \<noteq> None \<longrightarrow>
            error res = None
            \<and> (\<not> longFormat \<longrightarrow> output res = join ''  '' (sort_strings (map item_name shown)))
            \<and> (longFormat \<longrightarrow>
                 output res = trim (''total '' @ toString (max (length contents * 4) 12) @ nl
                   @ (if showAll then
                        ''drwxr-xr-x 3 user user 4096 Jan 15 14:30 .'' @ nl
                        @ (if fullPath \<noteq> ''/'' then
                             ''drwxr-xr-x 3 root root 4096 Jan 15 14:20 ..'' @ nl
                           else [])
                      else [])
                   @ concat (map longLine shown))))
       \<and> set contents =
           {item \<in> snd ` set fs.
              itemDir (item_path item)
                = (if endsWith fullPath ''/'' \<and> fullPath \<noteq> ''/'' then butlast fullPath
                   else fullPath)
              \<and> item_path item
                \<noteq> (if endsWith fullPath ''/'' \<and> fullPath \<noteq> ''/'' then butlast fullPath
                   else fullPath)})"
  unfolding Let_def dispatch_ls set_getDirectoryContents
  by (cases "''-a'' \<in> set args \<or> ''-la'' \<in> set args \<or> ''-al'' \<in> set args")
     (simp_all add: listDirectory_def Let_def or_else_def fileSystemItemExists_def
        getFileSystemItem_def concat_skip split: option.splits)

lemma longLine_text:
  "longLine item
     = (if item_type item = Directory then ''d'' else ''-'') @ drop 1 (item_permissions item)
       @ '' 1 user user '' @ replicate (8 - length (item_size item)) CHR 0x20 @ item_size item
       @ '' Jan 15 14:30 '' @ item_name item @ nl"
  by (simp add: longLine_def padStart_def Let_def)

lemma listDirectory_samples:
  "output (listDirectory initializeFileSystem ''/home/user'' []) = ''Documents  Projects''"
  "output (listDirectory initializeFileSystem ''/home/user'' [''-a''])
     = ''.bash_logout  .bashrc  .profile  Documents  Projects''"
  "output (listDirectory initializeFileSystem ''/home/user'' [''-la''])
     = ''total 20'' @ nl
       @ ''drwxr-xr-x 3 user user 4096 Jan 15 14:30 .'' @ nl
       @ ''drwxr-xr-x 3 root root 4096 Jan 15 14:20 ..'' @ nl
       @ ''drwxr-xr-x 1 user user     4096 Jan 15 14:30 Documents'' @ nl
       @ ''drwxr-xr-x 1 user user     4096 Jan 15 14:30 Projects'' @ nl
       @ ''-rw-r--r-- 1 user user     3526 Jan 15 14:30 .bashrc'' @ nl
       @ ''-rw-r--r-- 1 user user      807 Jan 15 14:30 .profile'' @ nl
       @ ''-rw-r--r-- 1 user user      220 Jan 15 14:30 .bash_logout''"
  "output (listDirectory initializeFileSystem ''/home/user'' [''/home'', ''-l''])
     = ''total 12'' @ nl @ ''drwxr-xr-x 1 user user     4096 Jan 15 14:30 user''"
  "output (fst (executeCommand sample_host ''ls''
       (run sample_host [''mkdir d'', ''cd d'', ''touch b.txt a.txt''] bootstrap)))
     = ''a.txt  b.txt''"
  by code_simp+




subsection \<open>Reading the storage after a write\<close>

lemma map_of_map_set: "map_of (map_set k v fs) = (map_of fs)(k \<mapsto> v)"
  by (induction fs) (auto simp: fun_eq_iff)

lemma map_of_map_delete: "map_of (map_delete k fs) = (map_of fs)(k := None)"
  by (induction fs) (auto simp: fun_eq_iff)

lemma get_create:
  "getFileSystemItem (createFileSystemItem fs item) q
     = (if q = item_path item then Some item else getFileSystemItem fs q)"
  by (simp add: getFileSystemItem_def createFileSystemItem_def map_of_map_set)

lemma get_delete:
  "getFileSystemItem (snd (deleteFileSystemItem fs p)) q
     = (if q = p then None else getFileSystemItem fs q)"
  by (simp add: getFileSystemItem_def deleteFileSystemItem_def map_of_map_delete)

lemma item_path_mkItem [simp]:
  "item_path (mkItem p n t c perms sz) = p" "item_name (mkItem p n t c perms sz) = n"
  "item_type (mkItem p n t c perms sz) = t" "item_content (mkItem p n t c perms sz) = c"
  "item_permissions (mkItem p n t c perms sz) = perms" "item_size (mkItem p n t c perms sz) = sz"
  by (simp_all add: mkItem_def)

subsection \<open>echo\<close>

lemma indexOf_absent: "x \<notin> set xs \<Longrightarrow> indexOf xs x = - 1"
  by (induction xs) auto

lemma indexOf_first: "x \<notin> set pre \<Longrightarrow> indexOf (pre @ x # ys) x = int (length pre)"
  by (induction pre) (auto simp: Let_def)

lemma indexOf_last_only:
  "x \<notin> set (butlast xs) \<Longrightarrow> indexOf xs x = - 1 \<or> indexOf xs x = int (length xs) - 1"
proof (cases xs rule: rev_cases)
  case Nil
  then show ?thesis by simp
next
  case (snoc ys y)
  assume "x \<notin> set (butlast xs)"
  with snoc have absent: "x \<notin> set ys" by simp
  show ?thesis
  proof (cases "y = x")
    case True
    with snoc absent show ?thesis by (simp add: indexOf_first)
  next
    case False
    with snoc absent show ?thesis by (simp add: indexOf_absent)
  qed
qed

lemma dispatch_echo:
  "dispatch h fs cwd ''echo'' args = (Inr (fst (echo fs cwd args)), snd (echo fs cwd args), cwd)"
  by (simp add: dispatch_def Let_def)

lemma echo_plain:
  assumes "''>'' \<notin> set (butlast args)"
  shows "echo fs cwd args = (ok (strip_quotes (join '' '' args)) cwd, fs)"
proof (cases "args = []")
  case True
  then show ?thesis by (simp add: echo_def strip_quotes_def)
next
  case False
  from indexOf_last_only [OF assms] False show ?thesis
    by (auto simp: echo_def Let_def)
qed

lemma echo_redirect:
  assumes "args = pre @ ''>'' # file # rest" and "''>'' \<notin> set pre"
  shows "echo fs cwd args =
     (ok [] cwd,
      createFileSystemItem fs
        (mkItem (resolvePath cwd file) (baseName file) File (Some (strip_quotes (join '' '' pre)))
           ''-rw-r--r--'' (toString (length (strip_quotes (join '' '' pre))))))"
proof -
  have idx: "indexOf args ''>'' = int (length pre)"
    using assms by (simp add: indexOf_first)
  have nth: "args ! Suc (length pre) = file"
    using assms(1) by (simp add: nth_append)
  from idx nth assms(1) show ?thesis
    by (simp add: echo_def Let_def nat_add_distrib)
qed

lemma redirect_exists:
  assumes "x \<in> set (butlast xs)"
  shows "\<exists>pre y rest. xs = pre @ x # y # rest \<and> x \<notin> set pre"
proof -
  from assms obtain pre r where split: "butlast xs = pre @ x # r" and first: "x \<notin> set pre"
    by (meson split_list_first)
  from assms have "xs \<noteq> []" by auto
  then have "xs = butlast xs @ [last xs]" by simp
  with split have "xs = pre @ x # (r @ [last xs])" by simp
  moreover obtain y rest where "r @ [last xs] = y # rest"
    by (cases "r @ [last xs]") auto
  ultimately have "xs = pre @ x # y # rest" by simp
  with first show ?thesis by blast
qed

lemma utf8_length_plain:
  "\<forall>c \<in> set s. (of_char c :: nat) < 128 \<Longrightarrow> utf8_length s = length s"
  by (simp add: utf8_length_ascii)

lemma echo_redirect_block:
  "\<forall>pre file rest. args = pre @ ''>'' # file # rest \<and> ''>'' \<notin> set pre \<longrightarrow>
        (let content = strip_quotes (join '' '' pre);
             fullPath = resolvePath cwd file;
             node = mkItem fullPath (baseName file) File (Some content) ''-rw-r--r--''
                      (toString (length content))
         in echo fs cwd args = (ok [] cwd, createFileSystemItem fs node)
            \<and> decimal_value (item_size node) = length content
            \<and> ((\<forall>c \<in> set content. (of_char c :: nat) < 128) \<longrightarrow>
                  decimal_value (item_size node) = utf8_length content)
            \<and> getFileSystemItem (snd (echo fs cwd args)) fullPath = Some node
            \<and> (\<forall>q. q \<noteq> fullPath \<longrightarrow>
                  getFileSystemItem (snd (echo fs cwd args)) q = getFileSystemItem fs q))"
  by (auto simp: echo_redirect Let_def get_create decimal_value_toString utf8_length_plain)

text \<open>
  C5, as the code has it.  \<open>echo\<close> never raises and always succeeds, with no error.
  When no \<open>>\<close> token is followed by another argument, it changes nothing and prints the
  arguments joined by single spaces, every double quote removed.  Otherwise the arguments
  are some arguments without a \<open>>\<close>, the first \<open>>\<close>, a file name, and the rest; \<open>echo\<close>
  then prints nothing and stores a file at the resolved path of the file name, whatever
  was there before: its content is the arguments before the \<open>>\<close> joined by single spaces
  with the quotes removed, and its size is the decimal numeral, without leading zeros, of
  the number of code units of that content (its \<open>length\<close>); its name is what
  follows the last slash of the file name, or the whole file name when nothing follows;
  no other path changes.
  That number is the byte length of the content exactly when every unit of the content is
  below 128, so for ASCII text the size is the byte length.  On a new processor the
  command line \<open>echo "hi" > out.txt\<close> leaves a file with content \<open>hi\<close> and size \<open>2\<close>
  at \<open>/home/user/out.txt\<close>.
\<close>

theorem echo_contract:
  "dispatch h fs cwd ''echo'' args = (Inr (fst (echo fs cwd args)), snd (echo fs cwd args), cwd)
   \<and> success (fst (echo fs cwd args)) \<and> error (fst (echo fs cwd args)) = None
   \<and> (''>'' \<notin> set (butlast args) \<longrightarrow>
        echo fs cwd args = (ok (strip_quotes (join '' '' args)) cwd, fs))
   \<and> (''>'' \<in> set (butlast args) \<longrightarrow>
        (\<exists>pre file rest. args = pre @ ''>'' # file # rest \<and> ''>'' \<notin> set pre))
   \<and> (\<forall>pre file rest. args = pre @ ''>'' # file # rest \<and> ''>'' \<notin> set pre \<longrightarrow>
        (let content = strip_quotes (join '' '' pre);
             fullPath = resolvePath cwd file;
             node = mkItem fullPath (baseName file) File (Some content) ''-rw-r--r--''
                      (toString (length content))
         in echo fs cwd args = (ok [] cwd, createFileSystemItem fs node)
            \<and> decimal_value (item_size node) = length content
            \<and> ((\<forall>c \<in> set content. (of_char c :: nat) < 128) \<longrightarrow>
                  decimal_value (item_size node) = utf8_length content)
            \<and> getFileSystemItem (snd (echo fs cwd args)) fullPath = Some node
            \<and> (\<forall>q. q \<noteq> fullPath \<longrightarrow>
                  getFileSystemItem (snd (echo fs cwd args)) q = getFileSystemItem fs q)))
   \<and> CHR 0x22 \<notin> set (strip_quotes str)
   \<and> strip_quotes str = filter (\<lambda>c. c \<noteq> CHR 0x22) str
   \<and> getFileSystemItem
        (storage (snd (executeCommand h (''echo '' @ dq @ ''hi'' @ dq @ '' > out.txt'') bootstrap)))
        ''/home/user/out.txt''
      = Some (mkItem ''/home/user/out.txt'' ''out.txt'' File (Some ''hi'') ''-rw-r--r--'' ''2'')
   \<and> (utf8_length str = length str) = (\<forall>c \<in> set str. (of_char c :: nat) < 128)
   \<and> decimal_value (toString n) = n
   \<and> toString n \<noteq> []
   \<and> set (toString n) \<subseteq> set ''0123456789''
   \<and> (hd (toString n) = CHR ''0'' \<longrightarrow> n = 0)
   \<and> (\<forall>sep x xs. join sep [] = [] \<and> join sep (x # xs) = x @ concat (map (\<lambda>y. sep @ y) xs))
   \<and> (\<forall>raw. resolvePath cwd raw = resolve_rules cwd raw)
   \<and> output (fst (executeCommand h (''echo  a '' @ dq @ ''b c'' @ dq @ '' >'') bootstrap))
       = ''a b c >''
   \<and> (\<forall>pre n. CHR ''/'' \<notin> set n \<longrightarrow>
         baseName n = n
         \<and> baseName (pre @ CHR ''/'' # n) = (if n = [] then pre @ CHR ''/'' # n else n))"
proof -
  have named: "\<forall>pre n. CHR ''/'' \<notin> set n \<longrightarrow>
      baseName n = n
      \<and> baseName (pre @ CHR ''/'' # n) = (if n = [] then pre @ CHR ''/'' # n else n)"
    using baseName_segments by blast
  have always: "success (fst (echo fs cwd args)) \<and> error (fst (echo fs cwd args)) = None"
    by (simp add: echo_def Let_def)
  have quotes: "CHR 0x22 \<notin> set (strip_quotes str)"
    "strip_quotes str = filter (\<lambda>c. c \<noteq> CHR 0x22) str"
    by (simp_all add: strip_quotes_def)
  have sample: "getFileSystemItem
        (storage (snd (executeCommand h (''echo '' @ dq @ ''hi'' @ dq @ '' > out.txt'') bootstrap)))
        ''/home/user/out.txt''
      = Some (mkItem ''/home/user/out.txt'' ''out.txt'' File (Some ''hi'') ''-rw-r--r--'' ''2'')"
    by code_simp
  have printed: "output (fst (executeCommand h (''echo  a '' @ dq @ ''b c'' @ dq @ '' >'') bootstrap))
      = ''a b c >''"
    by code_simp
  have plain: "''>'' \<notin> set (butlast args) \<longrightarrow>
        echo fs cwd args = (ok (strip_quotes (join '' '' args)) cwd, fs)"
    by (simp add: echo_plain)
  have covered: "''>'' \<in> set (butlast args) \<longrightarrow>
        (\<exists>pre file rest. args = pre @ ''>'' # file # rest \<and> ''>'' \<notin> set pre)"
    using redirect_exists [of "''>''" args] by blast
  have first: "dispatch h fs cwd ''echo'' args
      = (Inr (fst (echo fs cwd args)), snd (echo fs cwd args), cwd)"
    by (rule dispatch_echo)
  from always have a1: "success (fst (echo fs cwd args))"
    and a2: "error (fst (echo fs cwd args)) = None"
    by blast+
  note c1 = toString_canonical [of n, THEN conjunct1]
  note c2 = toString_canonical [of n, THEN conjunct2, THEN conjunct1]
  note c3 = toString_canonical [of n, THEN conjunct2, THEN conjunct2]
  have joined: "\<forall>sep x xs. join sep [] = []
      \<and> join sep (x # xs) = x @ concat (map (\<lambda>y. sep @ y) xs)"
    using join_concat by blast
  have resolved: "\<forall>raw. resolvePath cwd raw = resolve_rules cwd raw"
    by (simp add: resolvePath_resolve_rules)
  show ?thesis
    by (rule conjI first a1 a2 plain covered echo_redirect_block quotes sample
        utf8_length_ascii decimal_value_toString c1 c2 c3 joined resolved printed named)+
qed

theorem echo_contract_witness:
  "echo initializeFileSystem ''/home/user'' [''a'', dq @ ''b'' @ dq, ''>'']
     = (ok ''a b >'' ''/home/user'', initializeFileSystem)
   \<and> getFileSystemItem
        (snd (echo initializeFileSystem ''/home/user'' [dq @ ''hi'' @ dq, ''>'', ''out.txt'']))
        ''/home/user/out.txt''
      = Some (mkItem ''/home/user/out.txt'' ''out.txt'' File (Some ''hi'') ''-rw-r--r--'' ''2'')
   \<and> utf8_length ''hi'' = 2"
proof -
  have last_only: "''>'' \<notin> set (butlast [''a'', dq @ ''b'' @ dq, ''>''])"
    by simp
  have printed: "strip_quotes (join '' '' [''a'', dq @ ''b'' @ dq, ''>'']) = ''a b >''"
    by code_simp
  have shape: "[dq @ ''hi'' @ dq, ''>'', ''out.txt''] = [dq @ ''hi'' @ dq] @ ''>'' # ''out.txt'' # []
      \<and> ''>'' \<notin> set [dq @ ''hi'' @ dq]"
    by simp
  have written: "strip_quotes (join '' '' [dq @ ''hi'' @ dq]) = ''hi''"
    "resolvePath ''/home/user'' ''out.txt'' = ''/home/user/out.txt''"
    "baseName ''out.txt'' = ''out.txt''" "toString (length ''hi'') = ''2''"
    by code_simp+
  have ascii: "\<forall>c \<in> set ''hi''. (of_char c :: nat) < 128"
    by simp
  note printing = echo_contract [where args = "[''a'', dq @ ''b'' @ dq, ''>'']"
      and fs = initializeFileSystem and cwd = "''/home/user''" and h = sample_host
      and str = "''hi''" and n = 2,
      THEN conjunct2, THEN conjunct2, THEN conjunct2, THEN conjunct1, THEN mp, OF last_only]
  note writing = echo_contract [where args = "[dq @ ''hi'' @ dq, ''>'', ''out.txt'']"
      and fs = initializeFileSystem and cwd = "''/home/user''" and h = sample_host
      and str = "''hi''" and n = 2,
      THEN conjunct2, THEN conjunct2, THEN conjunct2, THEN conjunct2, THEN conjunct2,
      THEN conjunct1, THEN spec, THEN spec, THEN spec, THEN mp, OF shape, unfolded Let_def,
      THEN conjunct2, THEN conjunct2, THEN conjunct2, THEN conjunct1, unfolded written]
  note bytes = echo_contract [where args = "[dq @ ''hi'' @ dq, ''>'', ''out.txt'']"
      and fs = initializeFileSystem and cwd = "''/home/user''" and h = sample_host
      and str = "''hi''" and n = 2,
      THEN conjunct2, THEN conjunct2, THEN conjunct2, THEN conjunct2, THEN conjunct2,
      THEN conjunct2, THEN conjunct2, THEN conjunct2, THEN conjunct2, THEN conjunct1,
      THEN iffD2, OF ascii]
  from bytes have size: "utf8_length ''hi'' = 2"
    by simp
  from printing printed have shown: "echo initializeFileSystem ''/home/user'' [''a'', dq @ ''b'' @ dq, ''>'']
     = (ok ''a b >'' ''/home/user'', initializeFileSystem)"
    by simp
  show ?thesis
    by (rule conjI shown writing size)+
qed

text \<open>
  C5 as stated fails on text that is not ASCII: \<open>echo\<close> of two letters e with an acute
  accent, redirected to \<open>f\<close>, stores the size \<open>2\<close>, the number of code units, while the
  text is four bytes long.
\<close>

theorem echo_size_counterexample:
  "getFileSystemItem
     (storage (snd (executeCommand sample_host (''echo '' @ [CHR 0xE9, CHR 0xE9] @ '' > f'')
        bootstrap))) ''/home/user/f''
     = Some (mkItem ''/home/user/f'' ''f'' File (Some [CHR 0xE9, CHR 0xE9]) ''-rw-r--r--'' ''2'')
   \<and> decimal_value ''2'' = 2
   \<and> utf8_length [CHR 0xE9, CHR 0xE9] = 4"
  by code_simp

subsection \<open>mv and cp\<close>

lemma moveFile_present:
  assumes "getFileSystemItem fs (resolvePath cwd src) = Some node"
  shows "moveFile fs cwd (src # dst # rest)
     = (ok [] cwd,
        snd (deleteFileSystemItem
          (createFileSystemItem fs
             (mkItem (resolvePath cwd dst) (baseName dst) (item_type node) (item_content node)
                (item_permissions node) (item_size node)))
          (resolvePath cwd src)))"
  using assms by (simp add: moveFile_def Let_def)

lemma copyFile_present:
  assumes "getFileSystemItem fs (resolvePath cwd src) = Some node"
  shows "copyFile fs cwd (src # dst # rest)
     = (ok [] cwd,
        createFileSystemItem fs
          (mkItem (resolvePath cwd dst) (baseName dst) (item_type node) (item_content node)
             (item_permissions node) (item_size node)))"
  using assms by (simp add: copyFile_def Let_def)

lemma moveFile_absent:
  assumes "getFileSystemItem fs (resolvePath cwd src) = None"
  shows "moveFile fs cwd (src # dst # rest)
     = (failed (''mv: cannot stat '' @ sq @ src @ sq @ '': No such file or directory'')
          ''File not found'' cwd, fs)"
  using assms by (simp add: moveFile_def Let_def)

lemma copyFile_absent:
  assumes "getFileSystemItem fs (resolvePath cwd src) = None"
  shows "copyFile fs cwd (src # dst # rest)
     = (failed (''cp: cannot stat '' @ sq @ src @ sq @ '': No such file or directory'')
          ''File not found'' cwd, fs)"
  using assms by (simp add: copyFile_def Let_def)




subsection \<open>mkdir\<close>

lemma dispatch_mkdir:
  "dispatch h fs cwd ''mkdir'' args
     = (Inr (fst (makeDirectory fs cwd args)), snd (makeDirectory fs cwd args), cwd)"
  by (simp add: dispatch_def Let_def)

lemma makeDirectory_step_cases:
  "(fileSystemItemExists fs (resolvePath cwd arg) \<longrightarrow>
      makeDirectory_step cwd arg (fs, results)
        = (fs, results @ [''mkdir: cannot create directory '' @ sq @ arg @ sq @ '': File exists'']))
   \<and> (\<not> fileSystemItemExists fs (resolvePath cwd arg)
        \<and> \<not> fileSystemItemExists fs (itemDir (resolvePath cwd arg))
        \<and> itemDir (resolvePath cwd arg) \<noteq> ''/'' \<longrightarrow>
      makeDirectory_step cwd arg (fs, results)
        = (fs, results @ [''mkdir: cannot create directory '' @ sq @ arg @ sq
                           @ '': No such file or directory'']))
   \<and> (\<not> fileSystemItemExists fs (resolvePath cwd arg)
        \<and> (fileSystemItemExists fs (itemDir (resolvePath cwd arg))
             \<or> itemDir (resolvePath cwd arg) = ''/'') \<longrightarrow>
      makeDirectory_step cwd arg (fs, results)
        = (createFileSystemItem fs
             (mkItem (resolvePath cwd arg) (baseName arg) Directory None ''drwxr-xr-x'' ''4096''),
           results)
      \<and> getFileSystemItem (fst (makeDirectory_step cwd arg (fs, results))) (resolvePath cwd arg)
        = Some (mkItem (resolvePath cwd arg) (baseName arg) Directory None ''drwxr-xr-x''
            ''4096''))"
  by (auto simp: makeDirectory_step_def Let_def get_create)

lemma makeDirectory_step_keeps:
  "getFileSystemItem fs q = Some node
   \<Longrightarrow> getFileSystemItem (fst (makeDirectory_step cwd arg (fs, results))) q = Some node"
  by (auto simp: makeDirectory_step_def Let_def fileSystemItemExists_def
      getFileSystemItem_def createFileSystemItem_def map_of_map_set)

lemma makeDirectory_loop_keeps:
  "getFileSystemItem (fst st) q = Some node
   \<Longrightarrow> getFileSystemItem (fst (makeDirectory_loop cwd args st)) q = Some node"
proof (induction args arbitrary: st)
  case Nil
  then show ?case by simp
next
  case (Cons arg args)
  obtain fs results where st: "st = (fs, results)"
    by (cases st)
  with Cons.prems have "getFileSystemItem (fst (makeDirectory_step cwd arg st)) q = Some node"
    by (simp add: makeDirectory_step_keeps)
  then show ?case
    by (simp add: Cons.IH)
qed

lemma makeDirectory_loop_foldl:
  "makeDirectory_loop cwd args st = foldl (\<lambda>st arg. makeDirectory_step cwd arg st) st args"
  by (induction args arbitrary: st) simp_all

lemma summary_fields:
  "success (summary results cwd) = (results = [])"
  "output (summary results cwd) = join nl results"
  "error (summary results cwd) = (case results of [] \<Rightarrow> None | first # others \<Rightarrow> Some first)"
  "currentDirectory (summary results cwd) = cwd"
  by (simp_all add: summary_def split: list.splits)

text \<open>
  C4, as the code has it.  \<open>mkdir\<close> never raises.  Without arguments it fails with
  \<open>mkdir: missing operand\<close> and changes nothing.  With arguments it runs the loop body
  on each path in turn, from the storage the paths before it have left, and nothing is
  rolled back: every node of the storage before the command is still there after it.
  The body, on one path: if a node exists at the resolved path, it adds the message
  \<open>File exists\<close> for the path and changes nothing; if none exists there, none exists at
  the parent path, and the parent path is not \<open>/\<close>, it adds the message
  \<open>No such file or directory\<close> and changes nothing; in every other case, so also for a
  path right under \<open>/\<close> whether or not the root node is in the storage, it adds no
  message and stores a directory with permissions \<open>drwxr-xr-x\<close> and size \<open>4096\<close>.
  The result is a success exactly when no message was added; its output is the messages
  joined by line feeds, its error the first message.
\<close>

theorem makeDirectory_contract:
  "dispatch h fs cwd ''mkdir'' args
     = (Inr (fst (makeDirectory fs cwd args)), snd (makeDirectory fs cwd args), cwd)
   \<and> (args = [] \<longrightarrow>
        makeDirectory fs cwd args = (failed ''mkdir: missing operand'' ''Missing operand'' cwd, fs))
   \<and> (args \<noteq> [] \<longrightarrow>
        (let st = foldl (\<lambda>st arg. makeDirectory_step cwd arg st) (fs, []) args;
             res = fst (makeDirectory fs cwd args)
         in snd (makeDirectory fs cwd args) = fst st
            \<and> success res = (snd st = [])
            \<and> output res = join nl (snd st)
            \<and> error res = (case snd st of [] \<Rightarrow> None | first # others \<Rightarrow> Some first)))
   \<and> (fileSystemItemExists fs' (resolvePath cwd arg) \<longrightarrow>
        makeDirectory_step cwd arg (fs', results)
          = (fs', results @ [''mkdir: cannot create directory '' @ sq @ arg @ sq
                              @ '': File exists'']))
   \<and> (\<not> fileSystemItemExists fs' (resolvePath cwd arg)
        \<and> \<not> fileSystemItemExists fs' (itemDir (resolvePath cwd arg))
        \<and> itemDir (resolvePath cwd arg) \<noteq> ''/'' \<longrightarrow>
        makeDirectory_step cwd arg (fs', results)
          = (fs', results @ [''mkdir: cannot create directory '' @ sq @ arg @ sq
                              @ '': No such file or directory'']))
   \<and> (\<not> fileSystemItemExists fs' (resolvePath cwd arg)
        \<and> (fileSystemItemExists fs' (itemDir (resolvePath cwd arg))
             \<or> itemDir (resolvePath cwd arg) = ''/'') \<longrightarrow>
        makeDirectory_step cwd arg (fs', results)
          = (createFileSystemItem fs'
               (mkItem (resolvePath cwd arg) (baseName arg) Directory None ''drwxr-xr-x''
                  ''4096''),
             results)
        \<and> getFileSystemItem (fst (makeDirectory_step cwd arg (fs', results)))
              (resolvePath cwd arg)
          = Some (mkItem (resolvePath cwd arg) (baseName arg) Directory None ''drwxr-xr-x''
              ''4096''))
   \<and> (\<forall>q node. getFileSystemItem fs q = Some node \<longrightarrow>
         getFileSystemItem (snd (makeDirectory fs cwd args)) q = Some node)"
proof -
  have empty: "args = [] \<longrightarrow>
      makeDirectory fs cwd args = (failed ''mkdir: missing operand'' ''Missing operand'' cwd, fs)"
    by (simp add: makeDirectory_def)
  have aggregate: "args \<noteq> [] \<longrightarrow>
        (let st = foldl (\<lambda>st arg. makeDirectory_step cwd arg st) (fs, []) args;
             res = fst (makeDirectory fs cwd args)
         in snd (makeDirectory fs cwd args) = fst st
            \<and> success res = (snd st = [])
            \<and> output res = join nl (snd st)
            \<and> error res = (case snd st of [] \<Rightarrow> None | first # others \<Rightarrow> Some first))"
    by (simp add: makeDirectory_def Let_def makeDirectory_loop_foldl summary_fields)
  have kept: "\<forall>q node. getFileSystemItem fs q = Some node \<longrightarrow>
         getFileSystemItem (snd (makeDirectory fs cwd args)) q = Some node"
    using makeDirectory_loop_keeps [of "(fs, [])"]
    by (simp add: makeDirectory_def Let_def)
  note step = makeDirectory_step_cases [of fs' cwd arg results]
  from step have s1: "fileSystemItemExists fs' (resolvePath cwd arg) \<longrightarrow>
        makeDirectory_step cwd arg (fs', results)
          = (fs', results @ [''mkdir: cannot create directory '' @ sq @ arg @ sq
                              @ '': File exists''])"
    by (elim conjE)
  from step have s2: "\<not> fileSystemItemExists fs' (resolvePath cwd arg)
        \<and> \<not> fileSystemItemExists fs' (itemDir (resolvePath cwd arg))
        \<and> itemDir (resolvePath cwd arg) \<noteq> ''/'' \<longrightarrow>
        makeDirectory_step cwd arg (fs', results)
          = (fs', results @ [''mkdir: cannot create directory '' @ sq @ arg @ sq
                              @ '': No such file or directory''])"
    by (elim conjE)
  from step have s3: "\<not> fileSystemItemExists fs' (resolvePath cwd arg)
        \<and> (fileSystemItemExists fs' (itemDir (resolvePath cwd arg))
             \<or> itemDir (resolvePath cwd arg) = ''/'') \<longrightarrow>
        makeDirectory_step cwd arg (fs', results)
          = (createFileSystemItem fs'
               (mkItem (resolvePath cwd arg) (baseName arg) Directory None ''drwxr-xr-x''
                  ''4096''),
             results)
        \<and> getFileSystemItem (fst (makeDirectory_step cwd arg (fs', results)))
              (resolvePath cwd arg)
          = Some (mkItem (resolvePath cwd arg) (baseName arg) Directory None ''drwxr-xr-x''
              ''4096'')"
    by (elim conjE)
  show ?thesis
    by (rule conjI dispatch_mkdir empty aggregate s1 s2 s3 kept)+
qed

theorem makeDirectory_contract_witness:
  "\<not> success (fst (makeDirectory initializeFileSystem ''/home/user'' [''p'', ''p'', ''x/y'', ''p/q'']))
   \<and> output (fst (makeDirectory initializeFileSystem ''/home/user'' [''p'', ''p'', ''x/y'', ''p/q'']))
       = ''mkdir: cannot create directory '' @ sq @ ''p'' @ sq @ '': File exists'' @ nl
         @ ''mkdir: cannot create directory '' @ sq @ ''x/y'' @ sq @ '': No such file or directory''
   \<and> error (fst (makeDirectory initializeFileSystem ''/home/user'' [''p'', ''p'', ''x/y'', ''p/q'']))
       = Some (''mkdir: cannot create directory '' @ sq @ ''p'' @ sq @ '': File exists'')
   \<and> getFileSystemItem
        (snd (makeDirectory initializeFileSystem ''/home/user'' [''p'', ''p'', ''x/y'', ''p/q'']))
        ''/home/user/p/q''
       = Some (mkItem ''/home/user/p/q'' ''q'' Directory None ''drwxr-xr-x'' ''4096'')
   \<and> makeDirectory_step ''/home/user'' ''/x'' (map_delete ''/'' initializeFileSystem, [])
       = (createFileSystemItem (map_delete ''/'' initializeFileSystem)
            (mkItem ''/x'' ''x'' Directory None ''drwxr-xr-x'' ''4096''), [])"
proof -
  note inst = makeDirectory_contract [where args = "[''p'', ''p'', ''x/y'', ''p/q'']"
      and fs = initializeFileSystem and cwd = "''/home/user''" and h = sample_host
      and fs' = "map_delete ''/'' initializeFileSystem" and arg = "''/x''" and results = "[]"]
  have several: "[''p'', ''p'', ''x/y'', ''p/q''] \<noteq> []"
    by simp
  have messages: "snd (foldl (\<lambda>st arg. makeDirectory_step ''/home/user'' arg st)
        (initializeFileSystem, []) [''p'', ''p'', ''x/y'', ''p/q''])
      = [''mkdir: cannot create directory '' @ sq @ ''p'' @ sq @ '': File exists'',
         ''mkdir: cannot create directory '' @ sq @ ''x/y'' @ sq
           @ '': No such file or directory'']"
    by code_simp
  have made: "getFileSystemItem
        (fst (foldl (\<lambda>st arg. makeDirectory_step ''/home/user'' arg st)
           (initializeFileSystem, []) [''p'', ''p'', ''x/y'', ''p/q'']))
        ''/home/user/p/q''
      = Some (mkItem ''/home/user/p/q'' ''q'' Directory None ''drwxr-xr-x'' ''4096'')"
    by code_simp
  have rootless: "\<not> fileSystemItemExists (map_delete ''/'' initializeFileSystem)
        (resolvePath ''/home/user'' ''/x'')
      \<and> (fileSystemItemExists (map_delete ''/'' initializeFileSystem)
             (itemDir (resolvePath ''/home/user'' ''/x''))
           \<or> itemDir (resolvePath ''/home/user'' ''/x'') = ''/'')"
    by code_simp
  have names: "resolvePath ''/home/user'' ''/x'' = ''/x''" "baseName ''/x'' = ''x''"
    by code_simp+
  note aggregate = inst [THEN conjunct2, THEN conjunct2, THEN conjunct1, THEN mp, OF several,
      unfolded Let_def messages]
  note created = inst [THEN conjunct2, THEN conjunct2, THEN conjunct2, THEN conjunct2,
      THEN conjunct2, THEN conjunct1, THEN mp, OF rootless, THEN conjunct1, unfolded names]
  from aggregate made have
    "\<not> success (fst (makeDirectory initializeFileSystem ''/home/user'' [''p'', ''p'', ''x/y'', ''p/q'']))"
    "output (fst (makeDirectory initializeFileSystem ''/home/user'' [''p'', ''p'', ''x/y'', ''p/q'']))
       = ''mkdir: cannot create directory '' @ sq @ ''p'' @ sq @ '': File exists'' @ nl
         @ ''mkdir: cannot create directory '' @ sq @ ''x/y'' @ sq @ '': No such file or directory''"
    "error (fst (makeDirectory initializeFileSystem ''/home/user'' [''p'', ''p'', ''x/y'', ''p/q'']))
       = Some (''mkdir: cannot create directory '' @ sq @ ''p'' @ sq @ '': File exists'')"
    "getFileSystemItem
        (snd (makeDirectory initializeFileSystem ''/home/user'' [''p'', ''p'', ''x/y'', ''p/q'']))
        ''/home/user/p/q''
       = Some (mkItem ''/home/user/p/q'' ''q'' Directory None ''drwxr-xr-x'' ''4096'')"
    by simp_all
  with created show ?thesis
    by (intro conjI)
qed


text \<open>
  C4 as stated fails where the root node has been removed: after \<open>rm /\<close> neither
  \<open>/x\<close> nor its parent \<open>/\<close> exists, and \<open>mkdir /x\<close> still succeeds with empty output
  and stores the directory.
\<close>

theorem makeDirectory_root_counterexample:
  "\<not> fileSystemItemExists (storage (run sample_host [''rm /''] bootstrap))
        (itemDir (resolvePath ''/home/user'' ''/x''))
   \<and> \<not> fileSystemItemExists (storage (run sample_host [''rm /''] bootstrap))
        (resolvePath ''/home/user'' ''/x'')
   \<and> this_currentDirectory (run sample_host [''rm /''] bootstrap) = ''/home/user''
   \<and> fst (executeCommand sample_host ''mkdir /x'' (run sample_host [''rm /''] bootstrap))
       = ok [] ''/home/user''
   \<and> getFileSystemItem
        (storage (snd (executeCommand sample_host ''mkdir /x''
           (run sample_host [''rm /''] bootstrap)))) ''/x''
       = Some (mkItem ''/x'' ''x'' Directory None ''drwxr-xr-x'' ''4096'')"
  by code_simp


subsection \<open>The parent invariant\<close>

text \<open>
  C1 does not hold of the code.  The initial storage satisfies the parent invariant.
  \<open>touch a/b/c.txt\<close> on a new processor succeeds and stores a file at
  \<open>/home/user/a/b/c.txt\<close>, although no node exists at \<open>/home/user/a/b\<close>: \<open>createFile\<close>
  has no test of the parent, the test \<open>makeDirectory\<close> makes.  The storage after the
  command violates the invariant.  So does the storage after \<open>echo\<close> with a
  redirection, \<open>cp\<close> and \<open>mv\<close> to such a path, after \<open>wget\<close> of a URL that ends in a
  tilde (the file replaces the directory \<open>/home/user\<close>), and after \<open>mkdir\<close> below a
  file, whose test asks for a node at the parent path and not for a directory.
\<close>

theorem parent_invariant_broken:
  "parents_exist (storage bootstrap)
   \<and> success (fst (executeCommand sample_host ''touch a/b/c.txt'' bootstrap))
   \<and> getFileSystemItem (storage (snd (executeCommand sample_host ''touch a/b/c.txt'' bootstrap)))
        ''/home/user/a/b/c.txt''
       = Some (mkItem ''/home/user/a/b/c.txt'' ''c.txt'' File (Some []) ''-rw-r--r--'' ''0'')
   \<and> getFileSystemItem (storage (snd (executeCommand sample_host ''touch a/b/c.txt'' bootstrap)))
        ''/home/user/a/b'' = None
   \<and> \<not> parents_exist (storage (snd (executeCommand sample_host ''touch a/b/c.txt'' bootstrap)))
   \<and> \<not> parents_exist (storage (snd (executeCommand sample_host ''echo hi > a/b/c.txt'' bootstrap)))
   \<and> \<not> parents_exist (storage (snd (executeCommand sample_host ''cp .bashrc a/b/c'' bootstrap)))
   \<and> \<not> parents_exist (storage (snd (executeCommand sample_host ''mv .bashrc a/b/c'' bootstrap)))
   \<and> \<not> parents_exist (storage (snd (executeCommand sample_host ''wget http://h/~'' bootstrap)))
   \<and> \<not> parents_exist (storage (snd (executeCommand sample_host ''mkdir .bashrc/d'' bootstrap)))"
  by code_simp

subsection \<open>find\<close>

text \<open>
  C9 does not hold of the code.  \<open>findFiles\<close> hands its first argument to
  \<open>getDirectoryContents\<close> as it is typed, without \<open>resolvePath\<close>.  After \<open>cd /home\<close>
  the command \<open>find user\<close> prints nothing, while the storage holds five entries under
  the resolved path \<open>/home/user\<close>, the ones \<open>find /home/user\<close> prints.  And \<open>find\<close> can
  fail: with \<open>-name\<close> as the last argument the filter raises, and the result of
  \<open>find /home/user -name\<close> is not a success.
\<close>

theorem findFiles_unresolved:
  "this_currentDirectory (run sample_host [''cd /home''] bootstrap) = ''/home''
   \<and> fst (executeCommand sample_host ''find user'' (run sample_host [''cd /home''] bootstrap))
       = ok [] ''/home''
   \<and> map item_path
        (getDirectoryContents (storage (run sample_host [''cd /home''] bootstrap))
           (resolvePath ''/home'' ''user''))
       = [''/home/user/Documents'', ''/home/user/Projects'', ''/home/user/.bashrc'',
          ''/home/user/.profile'', ''/home/user/.bash_logout'']
   \<and> output (fst (executeCommand sample_host ''find /home/user''
          (run sample_host [''cd /home''] bootstrap)))
       = ''/home/user/Documents'' @ nl @ ''/home/user/Projects'' @ nl @ ''/home/user/.bashrc''
         @ nl @ ''/home/user/.profile'' @ nl @ ''/home/user/.bash_logout''
   \<and> \<not> success (fst (executeCommand sample_host ''find /home/user -name'' bootstrap))
   \<and> error (fst (executeCommand sample_host ''find /home/user -name'' bootstrap))
       = Some (message (undefined_read ''replace''))"
  by code_simp

end
